theory Spec2Isabelle
  imports Complex_Main "HOL-Library.AList" "HOL-Library.Sublist"
begin

section \<open>The rescoring orchestrator of MS2Rescore (\<^verbatim>\<open>src/ms2rescore/core.py\<close>)\<close>

text \<open>
  The function \<^verbatim>\<open>rescore\<close> sequences calls into \<^verbatim>\<open>psm_utils\<close>, the feature generators and
  the rescoring engines. None of these is part of \<^verbatim>\<open>core.py\<close>, so each of them is a field
  of the record \<open>env\<close> below: a function that returns the new PSM list or an error. Every
  theorem holds for every such environment unless it names a hypothesis about one.
  In-place mutation of the PSM list is explicit state passing, exceptions are values of
  the type \<open>error\<close>, and everything the run does to the outside (log lines, files,
  calls of collaborators) is appended to a list of events, in the order of the source.
  A log line and a write to a file are events that succeed; a collaborator that returns
  PSMs may fail. Python floats are read as the real numbers they denote.
\<close>

subsection \<open>Data model\<close>

datatype error =
    ZeroDivisionError
  | TypeError
  | IndexError
  | KeyError
  | ValueError
  | ReError
  | MS2RescoreConfigurationError
  | MS2RescoreError
  | CollaboratorError string

text \<open>A spectrum identifier is a string, an integer (line 94 of the source), or
  \<^verbatim>\<open>None\<close> (a capture group that did not take part in the match).\<close>

datatype spec_id = IdStr string | IdInt int | IdNone

text \<open>Values of the provenance bag.\<close>

datatype pval = PNone | PFloat real | PInt int | PStr string

text \<open>The PSM of \<^verbatim>\<open>psm_utils\<close>, with the attributes section 3 of the specification lists.
  The two dictionaries are association lists with the update of \<open>AList\<close> (an existing key
  keeps its place, a new key goes to the end), read with \<open>map_of\<close>.\<close>

record psm =
  spectrum_id :: spec_id
  peptidoform :: string
  score :: real
  qvalue :: "real option"
  pep :: "real option"
  rank :: int
  is_decoy :: bool
  source :: string
  rescoring_features :: "(string \<times> real) list"
  provenance_data :: "(string \<times> pval) list"

type_synonym kwargs = "(string \<times> string) list"

text \<open>The configuration \<^verbatim>\<open>configuration["ms2rescore"]\<close>: a dictionary with a fixed set of
  keys, hence a record. The two nested dictionaries whose iteration order or key set the
  code reads are association lists.\<close>

record config =
  psm_file :: string
  psm_file_type :: string
  output_path :: string
  log_level :: string
  processes :: int
  id_decoy_pattern :: "string option"
  lower_score_is_better :: bool
  modification_mapping :: "(string \<times> string) list"
  fixed_modifications :: "(string \<times> string list) list"
  psm_id_pattern :: "string option"
  rename_to_usi :: bool
  feature_generators :: "(string \<times> kwargs) list"
  rescoring_engine :: "(string \<times> kwargs) list"
  fasta_file :: "string option"

text \<open>A feature generator instance: \<^verbatim>\<open>add_features\<close> and the property \<^verbatim>\<open>feature_names\<close>.\<close>

record fgen =
  add_features :: "psm list \<Rightarrow> error + psm list"
  feature_names :: "string list"

text \<open>A match object of \<^verbatim>\<open>re\<close>: the groups, group 0 first; a group that did not take part
  in the match is \<open>None\<close>.\<close>

type_synonym match = "string option list"

record env =
  cpu_count :: int
  read_file :: "string \<Rightarrow> string \<Rightarrow> error + psm list"
  find_decoys :: "string \<Rightarrow> psm list \<Rightarrow> error + psm list"
  calculate_qvalues :: "bool \<Rightarrow> psm list \<Rightarrow> error + psm list"
  rename_modifications :: "(string \<times> string) list \<Rightarrow> psm list \<Rightarrow> error + psm list"
  add_fixed_modifications :: "(string \<times> string list) list \<Rightarrow> psm list \<Rightarrow> error + psm list"
  apply_fixed_modifications :: "psm list \<Rightarrow> error + psm list"
  re_compile :: "string \<Rightarrow> bool"
  re_search :: "string \<Rightarrow> string \<Rightarrow> match option"
  FEATURE_GENERATORS :: "string \<Rightarrow> (config \<Rightarrow> kwargs \<Rightarrow> error + fgen) option"
  get_usi :: "psm \<Rightarrow> error + string"
  percolator_rescore :: "psm list \<Rightarrow> string \<Rightarrow> string \<Rightarrow> int \<Rightarrow> kwargs \<Rightarrow> error + psm list"
  mokapot_rescore :: "psm list \<Rightarrow> string \<Rightarrow> string option \<Rightarrow> kwargs \<Rightarrow> error + psm list"

subsection \<open>Events\<close>

datatype level = Debug | Info | Warning

datatype log_msg =
    UsingCPUs int int
  | ReadingPSMs
  | FindingDecoys
  | FoundPSMs nat real
  | RecalculatingQvalues
  | IdentifiedBefore nat
  | ParsingModifications
  | ApplyingPsmIdPattern
  | AlreadyContains "string set"
  | AddingFeaturesFrom string "string set"
  | RemovedPSMs nat "string set"
  | CreatingUSIs nat
  | WritingPin string
  | NoKnownEngine
  | IdentifiedMore int "real option"
  | WritingOutput string

datatype collaborator =
    ReadFile
  | FindDecoys
  | CalculateQvalues
  | RenameModifications
  | AddFixedModifications
  | ApplyFixedModifications
  | AddFeatures string
  | PercolatorRescore
  | MokapotRescore

datatype event =
    Log level log_msg
  | Invoke collaborator
  | WriteFullConfig string
  | WriteFeatureNames string "(string \<times> string set) list"
  | WritePSMs string string "psm list" "string set option"

type_synonym state = "psm list \<times> event list"

text \<open>A failed run keeps the events it had produced when the exception was raised.\<close>

type_synonym 'a result = "(error \<times> event list) + 'a"

definition bind_result :: "'a result \<Rightarrow> ('a \<Rightarrow> 'b result) \<Rightarrow> 'b result" where
  "bind_result r f = (case r of Inl x \<Rightarrow> Inl x | Inr a \<Rightarrow> f a)"

definition logger :: "level \<Rightarrow> log_msg \<Rightarrow> state \<Rightarrow> state" where
  "logger l m s = (fst s, snd s @ [Log l m])"

text \<open>A call \<^verbatim>\<open>psm_list.f(...)\<close> of a collaborator that mutates the list in place.\<close>

definition call :: "collaborator \<Rightarrow> (psm list \<Rightarrow> error + psm list) \<Rightarrow> state \<Rightarrow> state result" where
  "call c f s =
     (case f (fst s) of
        Inl e \<Rightarrow> Inl (e, snd s @ [Invoke c])
      | Inr psms \<Rightarrow> Inr (psms, snd s @ [Invoke c]))"

subsection \<open>Python primitives\<close>

text \<open>\<^verbatim>\<open>set(d.keys())\<close>\<close>

definition keys :: "('k \<times> 'v) list \<Rightarrow> 'k set" where
  "keys d = set (map fst d)"

definition truthy :: "string option \<Rightarrow> bool" where
  "truthy v = (case v of None \<Rightarrow> False | Some s \<Rightarrow> s \<noteq> [])"

definition py_truediv :: "real \<Rightarrow> real \<Rightarrow> error + real" where
  "py_truediv a b = (if b = 0 then Inl ZeroDivisionError else Inr (a / b))"

definition digit_char :: "nat \<Rightarrow> char" where
  "digit_char d = char_of (48 + d)"

function str_nat :: "nat \<Rightarrow> string" where
  "str_nat n = (if n < 10 then [digit_char n] else str_nat (n div 10) @ [digit_char (n mod 10)])"
  by pat_completeness auto
termination
  by (relation "measure id") auto

definition str_int :: "int \<Rightarrow> string" where
  "str_int i = (if i < 0 then CHR ''-'' # str_nat (nat (- i)) else str_nat (nat i))"

fun py_str :: "spec_id \<Rightarrow> string" where
  "py_str (IdStr s) = s"
| "py_str (IdInt i) = str_int i"
| "py_str IdNone = ''None''"

text \<open>A list comprehension whose body may raise: the first exception ends it.\<close>

fun try_map :: "('a \<Rightarrow> error + 'b) \<Rightarrow> 'a list \<Rightarrow> error + 'b list" where
  "try_map f [] = Inr []"
| "try_map f (x # xs) =
     (case f x of
        Inl e \<Rightarrow> Inl e
      | Inr y \<Rightarrow> (case try_map f xs of Inl e \<Rightarrow> Inl e | Inr ys \<Rightarrow> Inr (y # ys)))"

text \<open>\<^verbatim>\<open>psm_list["spectrum_id"] = values\<close>: bulk assignment, same length required.\<close>

definition assign_spectrum_id :: "psm list \<Rightarrow> spec_id list \<Rightarrow> error + psm list" where
  "assign_spectrum_id psms vals =
     (if length vals \<noteq> length psms then Inl ValueError
      else Inr (map (\<lambda>(p, v). p\<lparr>spectrum_id := v\<rparr>) (zip psms vals)))"

text \<open>\<^verbatim>\<open>psm_list[mask]\<close>: the PSMs where the mask is true, order preserved.\<close>

definition mask_select :: "psm list \<Rightarrow> bool list \<Rightarrow> psm list" where
  "mask_select psms msk = map fst (filter snd (zip psms msk))"

subsection \<open>The stages of \<^verbatim>\<open>rescore\<close>, in the order of the source\<close>

text \<open>Lines 30 to 46: write the configuration, read the PSMs unless a non-empty list
  was passed.\<close>

definition read_psms :: "env \<Rightarrow> config \<Rightarrow> psm list option \<Rightarrow> state result" where
  "read_psms env cfg psm_list =
     (let evs = [WriteFullConfig (output_path cfg @ ''.full-config.json''),
                 Log Debug (UsingCPUs (processes cfg) (cpu_count env)),
                 Log Info ReadingPSMs];
          from_file = (case read_file env (psm_file cfg) (psm_file_type cfg) of
                         Inl e \<Rightarrow> Inl (e, evs @ [Invoke ReadFile])
                       | Inr l \<Rightarrow> Inr (l, evs @ [Invoke ReadFile]))
      in case psm_list of
           None \<Rightarrow> from_file
         | Some l \<Rightarrow> if l = [] then from_file else Inr (l, evs))"

text \<open>Lines 51 to 58: the share of decoys, then the check that there is a decoy.
  The sum of an empty array is the integer 0, and \<^verbatim>\<open>0 / 0\<close> raises.\<close>

definition percent_decoys :: "psm list \<Rightarrow> error + real" where
  "percent_decoys psms =
     (case py_truediv (real (length (filter is_decoy psms))) (real (length psms)) of
        Inl e \<Rightarrow> Inl e
      | Inr r \<Rightarrow> Inr (r * 100))"

definition check_decoys :: "state \<Rightarrow> state result" where
  "check_decoys s =
     (case percent_decoys (fst s) of
        Inl e \<Rightarrow> Inl (e, snd s)
      | Inr pd \<Rightarrow>
          (let s1 = logger Info (FoundPSMs (length (fst s)) pd) s
           in if \<not> list_ex is_decoy (fst s) then Inl (MS2RescoreConfigurationError, snd s1)
              else Inr s1))"

text \<open>Lines 48 to 50.\<close>

definition apply_decoy_pattern :: "env \<Rightarrow> config \<Rightarrow> state \<Rightarrow> state result" where
  "apply_decoy_pattern env cfg s =
     (case id_decoy_pattern cfg of
        None \<Rightarrow> Inr (logger Debug FindingDecoys s)
      | Some pat \<Rightarrow>
          if truthy (Some pat)
          then call FindDecoys (find_decoys env pat) (logger Debug FindingDecoys s)
          else Inr (logger Debug FindingDecoys s))"

text \<open>Lines 48 to 58.\<close>

definition label_decoys :: "env \<Rightarrow> config \<Rightarrow> state \<Rightarrow> state result" where
  "label_decoys env cfg s = bind_result (apply_decoy_pattern env cfg s) check_decoys"

text \<open>Lines 60 to 63.\<close>

definition ensure_qvalues :: "env \<Rightarrow> config \<Rightarrow> state \<Rightarrow> state result" where
  "ensure_qvalues env cfg s =
     (if None \<in> set (map qvalue (fst s))
      then call CalculateQvalues (calculate_qvalues env (\<not> lower_score_is_better cfg))
             (logger Debug RecalculatingQvalues s)
      else Inr s)"

text \<open>Lines 66 to 68 and 178 to 180: the number of targets with a q-value of at most 0.01.
  Comparing \<^verbatim>\<open>None\<close> with a float raises.\<close>

definition identified :: "psm \<Rightarrow> bool" where
  "identified p = (case qvalue p of None \<Rightarrow> False | Some q \<Rightarrow> q \<le> 0.01 \<and> is_decoy p = False)"

definition id_psms :: "psm list \<Rightarrow> error + nat" where
  "id_psms psms =
     (if None \<in> set (map qvalue psms) then Inl TypeError
      else Inr (length (filter identified psms)))"

text \<open>Lines 72 to 80.\<close>

definition store_scoring_values :: "psm \<Rightarrow> psm" where
  "store_scoring_values p =
     p\<lparr>provenance_data :=
         AList.update ''before_rescoring_rank'' (PInt (rank p))
           (AList.update ''before_rescoring_pep'' (case pep p of None \<Rightarrow> PNone | Some q \<Rightarrow> PFloat q)
             (AList.update ''before_rescoring_qvalue''
                (case qvalue p of None \<Rightarrow> PNone | Some q \<Rightarrow> PFloat q)
               (AList.update ''before_rescoring_score'' (PFloat (score p))
                  (provenance_data p))))\<rparr>"

text \<open>Lines 82 to 85.\<close>

definition parse_modifications :: "env \<Rightarrow> config \<Rightarrow> state \<Rightarrow> state result" where
  "parse_modifications env cfg s =
     bind_result (call RenameModifications (rename_modifications env (modification_mapping cfg))
                    (logger Debug ParsingModifications s))
       (\<lambda>s1. bind_result (call AddFixedModifications
                             (add_fixed_modifications env (fixed_modifications cfg)) s1)
          (\<lambda>s2. call ApplyFixedModifications (apply_fixed_modifications env) s2))"

text \<open>Lines 207 to 216: \<^verbatim>\<open>match[1]\<close> raises \<^verbatim>\<open>TypeError\<close> when there is no match and
  \<^verbatim>\<open>IndexError\<close> when the pattern has no group 1.\<close>

definition match_item1 :: "match option \<Rightarrow> error + string option" where
  "match_item1 m =
     (case m of
        None \<Rightarrow> Inl TypeError
      | Some gs \<Rightarrow> (case gs of (g0 # g1 # rest) \<Rightarrow> Inr g1 | _ \<Rightarrow> Inl IndexError))"

definition match_psm_ids :: "env \<Rightarrow> spec_id \<Rightarrow> string \<Rightarrow> error + spec_id" where
  "match_psm_ids env old_id regex_pattern =
     (case match_item1 (re_search env regex_pattern (py_str old_id)) of
        Inr g \<Rightarrow> Inr (case g of None \<Rightarrow> IdNone | Some t \<Rightarrow> IdStr t)
      | Inl e \<Rightarrow> if e = TypeError \<or> e = IndexError then Inl MS2RescoreError else Inl e)"

text \<open>Lines 87 to 91.\<close>

definition apply_psm_id_pattern :: "env \<Rightarrow> config \<Rightarrow> state \<Rightarrow> state result" where
  "apply_psm_id_pattern env cfg s =
     (let s1 = logger Debug ApplyingPsmIdPattern s
      in case psm_id_pattern cfg of
           None \<Rightarrow> Inr s1
         | Some pat \<Rightarrow>
             if \<not> truthy (Some pat) then Inr s1
             else if \<not> re_compile env pat then Inl (ReError, snd s1)
             else (case try_map (\<lambda>old_id. match_psm_ids env old_id pat) (map spectrum_id (fst s1)) of
                     Inl e \<Rightarrow> Inl (e, snd s1)
                   | Inr new_ids \<Rightarrow>
                       (case assign_spectrum_id (fst s1) new_ids of
                          Inl e \<Rightarrow> Inl (e, snd s1)
                        | Inr psms \<Rightarrow> Inr (psms, snd s1))))"

text \<open>Line 95.\<close>

definition spectrum_ids_to_str :: "state \<Rightarrow> state result" where
  "spectrum_ids_to_str s =
     (case assign_spectrum_id (fst s) (map (\<lambda>p. IdStr (py_str (spectrum_id p))) (fst s)) of
        Inl e \<Rightarrow> Inl (e, snd s)
      | Inr psms \<Rightarrow> Inr (psms, snd s))"

text \<open>Lines 99 to 103.\<close>

definition psm_list_feature_names :: "psm list \<Rightarrow> string set" where
  "psm_list_feature_names psms = (\<Union>p \<in> set psms. keys (rescoring_features p))"

text \<open>Line 112: the MaxQuant generator is skipped unless every PSM comes from an
  \<^verbatim>\<open>msms\<close> file.\<close>

definition skipped :: "string \<Rightarrow> psm list \<Rightarrow> bool" where
  "skipped fgen_name psms =
     (fgen_name = ''maxquant'' \<and> \<not> list_all (\<lambda>p. source p = ''msms'') psms)"

text \<open>Lines 114 to 119: the body of the loop for a generator that is not skipped. The
  generator is built from the configuration and its own options, annotates the PSMs, and
  its feature names are read.\<close>

definition run_generator ::
  "env \<Rightarrow> config \<Rightarrow> string \<Rightarrow> kwargs \<Rightarrow> state \<Rightarrow> (string set \<times> state) result" where
  "run_generator env cfg fgen_name fgen_config s =
     (case FEATURE_GENERATORS env fgen_name of
        None \<Rightarrow> Inl (KeyError, snd s)
      | Some factory \<Rightarrow>
          (case factory cfg fgen_config of
             Inl e \<Rightarrow> Inl (e, snd s)
           | Inr g \<Rightarrow>
               (case call (AddFeatures fgen_name) (add_features g) s of
                  Inl x \<Rightarrow> Inl x
                | Inr s1 \<Rightarrow>
                    Inr (set (feature_names g),
                         logger Debug (AddingFeaturesFrom fgen_name (set (feature_names g))) s1))))"

text \<open>Lines 110 to 119: the loop over the configured generators. The registry
  \<^verbatim>\<open>feature_names\<close> is a dictionary: assigning to a key that is there replaces its value in
  place, a new key goes to the end.\<close>

fun add_rescoring_features ::
  "env \<Rightarrow> config \<Rightarrow> (string \<times> kwargs) list \<Rightarrow> (string \<times> string set) list \<Rightarrow> state
     \<Rightarrow> ((string \<times> string set) list \<times> state) result" where
  "add_rescoring_features env cfg [] names s = Inr (names, s)"
| "add_rescoring_features env cfg ((fgen_name, fgen_config) # rest) names s =
     (if skipped fgen_name (fst s) then add_rescoring_features env cfg rest names s
      else (case run_generator env cfg fgen_name fgen_config s of
              Inl x \<Rightarrow> Inl x
            | Inr (fs, s1) \<Rightarrow>
                add_rescoring_features env cfg rest (AList.update fgen_name fs names) s1))"

text \<open>Line 122.\<close>

definition all_feature_names :: "(string \<times> string set) list \<Rightarrow> string set" where
  "all_feature_names names = (\<Union>fg \<in> set (map snd names). fg)"

text \<open>Lines 123 to 125.\<close>

definition psms_with_features :: "string set \<Rightarrow> psm list \<Rightarrow> bool list" where
  "psms_with_features all_names psms = map (\<lambda>p. keys (rescoring_features p) = all_names) psms"

text \<open>Lines 127 to 139.\<close>

definition missing_features :: "string set \<Rightarrow> psm list \<Rightarrow> string set" where
  "missing_features all_names removed_psms =
     (\<Union>p \<in> set removed_psms. all_names - keys (rescoring_features p))"

definition filter_features :: "string set \<Rightarrow> state \<Rightarrow> state" where
  "filter_features all_names s =
     (let msk = psms_with_features all_names (fst s);
          n_removed = count_list msk False;
          s1 = (if n_removed > 0
                then logger Warning
                       (RemovedPSMs n_removed
                          (missing_features all_names (mask_select (fst s) (map Not msk)))) s
                else s)
      in (mask_select (fst s1) msk, snd s1))"

text \<open>Lines 143 to 145.\<close>

definition rename_usi :: "env \<Rightarrow> config \<Rightarrow> state \<Rightarrow> state result" where
  "rename_usi env cfg s =
     (if rename_to_usi cfg
      then (let s1 = logger Debug (CreatingUSIs (length (fst s))) s
            in case try_map (get_usi env) (fst s1) of
                 Inl e \<Rightarrow> Inl (e, snd s1)
               | Inr usis \<Rightarrow>
                   (case assign_spectrum_id (fst s1) (map IdStr usis) of
                      Inl e \<Rightarrow> Inl (e, snd s1)
                    | Inr psms \<Rightarrow> Inr (psms, snd s1)))
      else Inr s)"

text \<open>Lines 148 to 156.\<close>

definition write_pin :: "config \<Rightarrow> string set \<Rightarrow> state \<Rightarrow> state" where
  "write_pin cfg all_names s =
     (fst s, snd (logger Info (WritingPin (output_path cfg @ ''.psms.pin'')) s)
               @ [WritePSMs (output_path cfg @ ''.pin'') ''percolator'' (fst s) (Some all_names)])"

text \<open>Lines 159 to 175.\<close>

definition run_engine :: "env \<Rightarrow> config \<Rightarrow> state \<Rightarrow> state result" where
  "run_engine env cfg s =
     (case map_of (rescoring_engine cfg) ''percolator'' of
        Some percolator_kwargs \<Rightarrow>
          call PercolatorRescore
            (\<lambda>psms. percolator_rescore env psms (output_path cfg) (log_level cfg) (processes cfg)
                      percolator_kwargs) s
      | None \<Rightarrow>
          (case map_of (rescoring_engine cfg) ''mokapot'' of
             Some mokapot_kwargs \<Rightarrow>
               call MokapotRescore
                 (\<lambda>psms. mokapot_rescore env psms (output_path cfg) (fasta_file cfg)
                           mokapot_kwargs) s
           | None \<Rightarrow> Inr (logger Info NoKnownEngine s)))"

text \<open>Lines 178 to 186.\<close>

definition compare_results :: "nat \<Rightarrow> state \<Rightarrow> state result" where
  "compare_results id_psms_before s =
     (case id_psms (fst s) of
        Inl e \<Rightarrow> Inl (e, snd s)
      | Inr id_psms_after \<Rightarrow>
          (let diff = int id_psms_after - int id_psms_before
           in if id_psms_before > 0
              then Inr (logger Info (IdentifiedMore diff (Some (real_of_int diff / real id_psms_before))) s)
              else Inr (logger Info (IdentifiedMore diff None) s)))"

text \<open>Lines 189 to 195.\<close>

definition write_output :: "config \<Rightarrow> state \<Rightarrow> state" where
  "write_output cfg s =
     (fst s, snd (logger Info (WritingOutput (output_path cfg @ ''.psms.tsv'')) s)
               @ [WritePSMs (output_path cfg @ ''.psms.tsv'') ''tsv'' (fst s) None])"

text \<open>Lines 147 to 195: the PIN file and the early return, or the engine, the comparison
  and the final table.\<close>

definition export_or_rescore :: "env \<Rightarrow> config \<Rightarrow> nat \<Rightarrow> string set \<Rightarrow> state \<Rightarrow> state result" where
  "export_or_rescore env cfg id_psms_before all_names s =
     (if rescoring_engine cfg = [] then Inr (write_pin cfg all_names s)
      else bind_result (run_engine env cfg s)
             (\<lambda>s1. bind_result (compare_results id_psms_before s1)
                (\<lambda>s2. Inr (write_output cfg s2))))"

text \<open>Lines 97 to 141: the registry, the generators, the filter, the feature-name file.\<close>

definition annotate_and_filter ::
  "env \<Rightarrow> config \<Rightarrow> state \<Rightarrow> (string set \<times> state) result" where
  "annotate_and_filter env cfg s =
     (let names0 = [(''psm_file'', psm_list_feature_names (fst s))];
          s1 = logger Debug (AlreadyContains (psm_list_feature_names (fst s))) s
      in bind_result (add_rescoring_features env cfg (feature_generators cfg) names0 s1)
           (\<lambda>(names, s2).
              let all_names = all_feature_names names;
                  s3 = filter_features all_names s2
              in Inr (all_names,
                      (fst s3, snd s3 @ [WriteFeatureNames (output_path cfg @ ''.feature_names.tsv'') names]))))"

text \<open>Lines 65 to 69.\<close>

definition count_before :: "state \<Rightarrow> (nat \<times> state) result" where
  "count_before s =
     (case id_psms (fst s) of
        Inl e \<Rightarrow> Inl (e, snd s)
      | Inr id_psms_before \<Rightarrow>
          Inr (id_psms_before, logger Info (IdentifiedBefore id_psms_before) s))"

text \<open>Lines 48 to 69: decoys, q-values and the number of identified PSMs before rescoring.\<close>

definition baseline :: "env \<Rightarrow> config \<Rightarrow> state \<Rightarrow> (nat \<times> state) result" where
  "baseline env cfg s =
     bind_result (label_decoys env cfg s)
       (\<lambda>s1. bind_result (ensure_qvalues env cfg s1) count_before)"

text \<open>Lines 71 to 80: the loop over the PSMs that stores the scoring values.\<close>

definition snapshot :: "state \<Rightarrow> state" where
  "snapshot s = (map store_scoring_values (fst s), snd s)"

text \<open>Lines 82 to 95: modifications and spectrum identifiers.\<close>

definition normalize :: "env \<Rightarrow> config \<Rightarrow> state \<Rightarrow> state result" where
  "normalize env cfg s =
     bind_result (parse_modifications env cfg s)
       (\<lambda>s1. bind_result (apply_psm_id_pattern env cfg s1) spectrum_ids_to_str)"

text \<open>Lines 71 to 195: the run from the snapshot on.\<close>

definition rescore_after_baseline :: "env \<Rightarrow> config \<Rightarrow> nat \<Rightarrow> state \<Rightarrow> state result" where
  "rescore_after_baseline env cfg id_psms_before s1 =
     bind_result (normalize env cfg (snapshot s1))
       (\<lambda>s2. bind_result (annotate_and_filter env cfg s2)
          (\<lambda>(all_names, s3). bind_result (rename_usi env cfg s3)
             (\<lambda>s4. export_or_rescore env cfg id_psms_before all_names s4)))"

definition rescore :: "env \<Rightarrow> config \<Rightarrow> psm list option \<Rightarrow> state result" where
  "rescore env cfg psm_list =
     bind_result (read_psms env cfg psm_list)
       (\<lambda>s0. bind_result (baseline env cfg s0)
          (\<lambda>(id_psms_before, s1). rescore_after_baseline env cfg id_psms_before s1))"

subsection \<open>Vocabulary of the properties\<close>

text \<open>The events of a run, whether it failed or not.\<close>

definition trace :: "('a \<Rightarrow> event list) \<Rightarrow> 'a result \<Rightarrow> event list" where
  "trace g r = (case r of Inl x \<Rightarrow> snd x | Inr a \<Rightarrow> g a)"

text \<open>The transition of section 4.2 of the specification that an event belongs to
  (0 for the loading of the PSMs).\<close>

fun stage :: "event \<Rightarrow> nat" where
  "stage (WriteFullConfig path) = 0"
| "stage (Log l (UsingCPUs n m)) = 0"
| "stage (Log l ReadingPSMs) = 0"
| "stage (Invoke ReadFile) = 0"
| "stage (Log l FindingDecoys) = 1"
| "stage (Invoke FindDecoys) = 1"
| "stage (Log l (FoundPSMs n pd)) = 1"
| "stage (Log l RecalculatingQvalues) = 2"
| "stage (Invoke CalculateQvalues) = 2"
| "stage (Log l (IdentifiedBefore n)) = 2"
| "stage (Log l ParsingModifications) = 4"
| "stage (Invoke RenameModifications) = 4"
| "stage (Invoke AddFixedModifications) = 4"
| "stage (Invoke ApplyFixedModifications) = 4"
| "stage (Log l ApplyingPsmIdPattern) = 4"
| "stage (Log l (AlreadyContains fs)) = 5"
| "stage (Invoke (AddFeatures name)) = 5"
| "stage (Log l (AddingFeaturesFrom name fs)) = 5"
| "stage (Log l (RemovedPSMs n fs)) = 6"
| "stage (WriteFeatureNames path names) = 6"
| "stage (Log l (CreatingUSIs n)) = 7"
| "stage (Log l (WritingPin path)) = 8"
| "stage (Invoke PercolatorRescore) = 8"
| "stage (Invoke MokapotRescore) = 8"
| "stage (Log l NoKnownEngine) = 8"
| "stage (Log l (IdentifiedMore d r)) = 9"
| "stage (Log l (WritingOutput path)) = 10"
| "stage (WritePSMs path filetype psms names) = (if filetype = ''tsv'' then 10 else 8)"

text \<open>The event list \<open>new\<close> is \<open>old\<close> followed by events that satisfy \<open>P\<close>.\<close>

definition extends :: "(event \<Rightarrow> bool) \<Rightarrow> event list \<Rightarrow> event list \<Rightarrow> bool" where
  "extends P old new = (\<exists>ext. new = old @ ext \<and> list_all P ext)"

text \<open>Follows the specification, not the registry of the source: the union of the
  feature names contributed by the generators that the loop runs, from the state \<open>s\<close> on.\<close>

fun generator_feature_names ::
  "env \<Rightarrow> config \<Rightarrow> (string \<times> kwargs) list \<Rightarrow> state \<Rightarrow> string set" where
  "generator_feature_names env cfg [] s = {}"
| "generator_feature_names env cfg ((fgen_name, fgen_config) # rest) s =
     (if skipped fgen_name (fst s) then generator_feature_names env cfg rest s
      else (case run_generator env cfg fgen_name fgen_config s of
              Inl x \<Rightarrow> {}
            | Inr (fs, s1) \<Rightarrow> fs \<union> generator_feature_names env cfg rest s1))"


text \<open>The values stored under \<^verbatim>\<open>before_rescoring_score\<close>, PSM by PSM, and the contract of
  a collaborator that leaves them alone: it keeps the PSMs in number and order and does not
  touch that entry of the provenance data.\<close>

definition before_scores :: "psm list \<Rightarrow> pval option list" where
  "before_scores psms = map (\<lambda>p. map_of (provenance_data p) ''before_rescoring_score'') psms"

definition keeps_before_scores :: "(psm list \<Rightarrow> error + psm list) \<Rightarrow> bool" where
  "keeps_before_scores f = (\<forall>psms psms'. f psms = Inr psms' \<longrightarrow> before_scores psms' = before_scores psms)"

subsection \<open>A concrete environment and concrete inputs\<close>

text \<open>Collaborators that succeed and change nothing; the PSM file holds no PSM; the
  regular expression engine finds no match; no feature generator is registered.\<close>

definition idle_env :: env where
  "idle_env =
     \<lparr>cpu_count = 4,
      read_file = (\<lambda>path filetype. Inr []),
      find_decoys = (\<lambda>pat psms. Inr psms),
      calculate_qvalues = (\<lambda>reverse psms. Inr psms),
      rename_modifications = (\<lambda>mapping psms. Inr psms),
      add_fixed_modifications = (\<lambda>mods psms. Inr psms),
      apply_fixed_modifications = (\<lambda>psms. Inr psms),
      re_compile = (\<lambda>pat. True),
      re_search = (\<lambda>pat s. None),
      FEATURE_GENERATORS = (\<lambda>name. None),
      get_usi = (\<lambda>p. Inr (''mzspec:'' @ py_str (spectrum_id p))),
      percolator_rescore = (\<lambda>psms root lvl n kw. Inr psms),
      mokapot_rescore = (\<lambda>psms root fasta kw. Inr psms)\<rparr>"

definition base_config :: config where
  "base_config =
     \<lparr>psm_file = ''in.tsv'', psm_file_type = ''infer'', output_path = ''out'',
      log_level = ''info'', processes = 1, id_decoy_pattern = None,
      lower_score_is_better = False, modification_mapping = [], fixed_modifications = [],
      psm_id_pattern = None, rename_to_usi = False, feature_generators = [],
      rescoring_engine = [], fasta_file = None\<rparr>"

definition target_psm :: psm where
  "target_psm =
     \<lparr>spectrum_id = IdStr ''scan=1'', peptidoform = ''ACDEK/2'', score = 10,
      qvalue = Some 0.005, pep = None, rank = 1, is_decoy = False, source = ''msms'',
      rescoring_features = [], provenance_data = []\<rparr>"

definition decoy_psm :: psm where
  "decoy_psm =
     \<lparr>spectrum_id = IdStr ''scan=2'', peptidoform = ''KEDCA/2'', score = 3,
      qvalue = Some 0.5, pep = None, rank = 1, is_decoy = True, source = ''msms'',
      rescoring_features = [], provenance_data = []\<rparr>"

definition unscored_psm :: psm where
  "unscored_psm = target_psm\<lparr>spectrum_id := IdStr ''scan=3'', qvalue := None\<rparr>"

definition second_rank_psm :: psm where
  "second_rank_psm =
     target_psm\<lparr>spectrum_id := IdStr ''scan=4'', score := 4, qvalue := Some 0.01, rank := 2\<rparr>"

text \<open>A generator with one feature that scores the PSMs of rank 1 only.\<close>

definition example_generator :: fgen where
  "example_generator =
     \<lparr>add_features = (\<lambda>psms. Inr (map (\<lambda>p. if rank p = 1
          then p\<lparr>rescoring_features := AList.update ''charge_n'' 2 (rescoring_features p)\<rparr>
          else p) psms)),
      feature_names = [''charge_n'']\<rparr>"

text \<open>An environment with this generator under the name \<^verbatim>\<open>basic\<close>, a Percolator adapter that
  raises every score by 100, and a regular expression engine that knows the patterns
  \<^verbatim>\<open>scan=(.*)\<close> and \<^verbatim>\<open>scan=\<close> on identifiers that start with \<^verbatim>\<open>scan=\<close>.\<close>

definition example_env :: env where
  "example_env =
     idle_env\<lparr>
       re_search :=
         (\<lambda>pat s. if take 5 s \<noteq> ''scan='' then None
                  else if pat = ''scan=(.*)'' then Some [Some s, Some (drop 5 s)]
                  else if pat = ''scan='' then Some [Some ''scan='']
                  else None),
       FEATURE_GENERATORS :=
         (\<lambda>name. if name = ''basic'' then Some (\<lambda>cfg kw. Inr example_generator) else None),
       percolator_rescore :=
         (\<lambda>psms root lvl n kw. Inr (map (\<lambda>p. p\<lparr>score := score p + 100\<rparr>) psms))\<rparr>"

definition basic_config :: config where
  "basic_config = base_config\<lparr>feature_generators := [(''basic'', [])]\<rparr>"

definition percolator_config :: config where
  "percolator_config = basic_config\<lparr>rescoring_engine := [(''percolator'', [])]\<rparr>"

definition two_engines_config :: config where
  "two_engines_config = basic_config\<lparr>rescoring_engine := [(''mokapot'', []), (''percolator'', [])]\<rparr>"


section \<open>The events of each stage\<close>

text \<open>Every stage appends events to the ones it was given, and only events of its own
  transition; a failing stage reports the events up to the exception.\<close>

lemma extends_refl: "extends P evs evs"
  by (simp add: extends_def)

lemma extends_trans: "extends P a b \<Longrightarrow> extends P b c \<Longrightarrow> extends P a c"
  by (auto simp: extends_def)

lemma extends_mono: "extends P a b \<Longrightarrow> (\<And>e. P e \<Longrightarrow> Q e) \<Longrightarrow> extends Q a b"
  by (auto simp: extends_def list_all_iff)

lemma extends_snoc: "P e \<Longrightarrow> extends P a b \<Longrightarrow> extends P a (b @ [e])"
  by (auto simp: extends_def)

lemma extends_mem: "extends P a b \<Longrightarrow> e \<in> set b \<Longrightarrow> e \<in> set a \<or> P e"
  by (auto simp: extends_def list_all_iff)

lemma call_trace: "trace snd (call c f s) = snd s @ [Invoke c]"
  by (simp add: call_def trace_def split: sum.splits)

lemma call_Inr: "call c f s = Inr s' \<Longrightarrow> snd s' = snd s @ [Invoke c]"
  by (auto simp: call_def split: sum.splits)

lemma call_Inl: "call c f s = Inl x \<Longrightarrow> snd x = snd s @ [Invoke c]"
  by (auto simp: call_def split: sum.splits)

lemma read_psms_footprint: "extends (\<lambda>e. stage e = 0) [] (trace snd (read_psms env cfg arg))"
  by (auto simp: read_psms_def trace_def extends_def Let_def split: sum.splits option.splits)

lemma apply_decoy_pattern_footprint:
  "extends (\<lambda>e. stage e = 1) (snd s) (trace snd (apply_decoy_pattern env cfg s))"
  by (auto simp: apply_decoy_pattern_def trace_def extends_def logger_def call_def split: sum.splits option.splits)

lemma check_decoys_footprint:
  "extends (\<lambda>e. stage e = 1) (snd s) (trace snd (check_decoys s))"
  by (auto simp: check_decoys_def trace_def extends_def logger_def Let_def split: sum.splits option.splits)

lemma trace_bind:
  "trace g (bind_result r f) = (case r of Inl x \<Rightarrow> snd x | Inr a \<Rightarrow> trace g (f a))"
  by (simp add: trace_def bind_result_def split: sum.splits)

lemma bind_footprint:
  assumes "extends P evs (trace h r)"
    and "\<And>a. r = Inr a \<Longrightarrow> extends P (h a) (trace g (f a))"
  shows "extends P evs (trace g (bind_result r f))"
proof (cases r)
  case (Inl x)
  with assms(1) show ?thesis by (simp add: bind_result_def trace_def)
next
  case (Inr a)
  with assms(1) have "extends P evs (h a)" by (simp add: trace_def)
  with assms(2) [OF Inr] have "extends P evs (trace g (f a))" by (blast intro: extends_trans)
  with Inr show ?thesis by (simp add: trace_bind)
qed

lemma label_decoys_footprint:
  "extends (\<lambda>e. stage e = 1) (snd s) (trace snd (label_decoys env cfg s))"
  unfolding label_decoys_def
  by (rule bind_footprint [where h = snd]) (rule apply_decoy_pattern_footprint, rule check_decoys_footprint)

lemma ensure_qvalues_footprint:
  "extends (\<lambda>e. stage e = 2) (snd s) (trace snd (ensure_qvalues env cfg s))"
  by (auto simp: ensure_qvalues_def trace_def extends_def logger_def call_def split: sum.splits option.splits)

lemma parse_modifications_footprint:
  "extends (\<lambda>e. stage e = 4) (snd s) (trace snd (parse_modifications env cfg s))"
  by (auto simp: parse_modifications_def bind_result_def trace_def extends_def logger_def call_def split: sum.splits option.splits)

lemma apply_psm_id_pattern_footprint:
  "extends (\<lambda>e. stage e = 4) (snd s) (trace snd (apply_psm_id_pattern env cfg s))"
  by (auto simp: apply_psm_id_pattern_def trace_def extends_def logger_def Let_def split: sum.splits option.splits)

lemma spectrum_ids_to_str_footprint:
  "extends P (snd s) (trace snd (spectrum_ids_to_str s))"
  by (auto simp: spectrum_ids_to_str_def trace_def extends_def split: sum.splits option.splits)

lemma count_before_footprint:
  "extends (\<lambda>e. stage e = 2) (snd s) (trace (\<lambda>x. snd (snd x)) (count_before s))"
  by (auto simp: count_before_def trace_def extends_def logger_def split: sum.splits)

lemma baseline_footprint:
  "extends (\<lambda>e. stage e \<in> {1, 2}) (snd s) (trace (\<lambda>x. snd (snd x)) (baseline env cfg s))"
  unfolding baseline_def
  apply (rule bind_footprint [where h = snd])
   apply (rule extends_mono [OF label_decoys_footprint], simp)
  apply (rule bind_footprint [where h = snd])
   apply (rule extends_mono [OF ensure_qvalues_footprint], simp)
  apply (rule extends_mono [OF count_before_footprint], simp)
  done

lemma normalize_footprint:
  "extends (\<lambda>e. stage e = 4) (snd s) (trace snd (normalize env cfg s))"
  unfolding normalize_def
  apply (rule bind_footprint [where h = snd])
   apply (rule parse_modifications_footprint)
  apply (rule bind_footprint [where h = snd])
   apply (rule apply_psm_id_pattern_footprint)
  apply (rule spectrum_ids_to_str_footprint)
  done

lemma run_generator_footprint:
  "extends (\<lambda>e. stage e = 5) (snd s) (trace (\<lambda>x. snd (snd x)) (run_generator env cfg n c s))"
  by (auto simp: run_generator_def trace_def extends_def logger_def call_def split: sum.splits option.splits)

lemma add_rescoring_features_footprint:
  "extends (\<lambda>e. stage e = 5) (snd s) (trace (\<lambda>x. snd (snd x)) (add_rescoring_features env cfg gens names s))"
proof (induction gens arbitrary: names s)
  case Nil
  show ?case by (simp add: trace_def extends_refl)
next
  case (Cons g gens)
  obtain n c where g: "g = (n, c)" by (cases g)
  show ?case
  proof (cases "skipped n (fst s)")
    case True
    with g Cons.IH [where names = names and s = s] show ?thesis by simp
  next
    case False
    show ?thesis
    proof (cases "run_generator env cfg n c s")
      case (Inl x)
      with run_generator_footprint [of s env cfg n c] False g show ?thesis
        by (simp add: trace_def)
    next
      case (Inr a)
      obtain fs s1 where a: "a = (fs, s1)" by (cases a)
      from run_generator_footprint [of s env cfg n c] Inr a
      have "extends (\<lambda>e. stage e = 5) (snd s) (snd s1)" by (simp add: trace_def)
      moreover note Cons.IH [where names = "AList.update n fs names" and s = s1]
      ultimately have "extends (\<lambda>e. stage e = 5) (snd s)
          (trace (\<lambda>x. snd (snd x)) (add_rescoring_features env cfg gens (AList.update n fs names) s1))"
        by (rule extends_trans)
      with False g Inr a show ?thesis by simp
    qed
  qed
qed

lemma filter_features_footprint:
  "extends (\<lambda>e. stage e = 6) (snd s) (snd (filter_features all_names s))"
  by (simp add: filter_features_def Let_def logger_def extends_def)

lemma annotate_and_filter_footprint:
  "extends (\<lambda>e. stage e \<in> {5, 6}) (snd s) (trace (\<lambda>x. snd (snd x)) (annotate_and_filter env cfg s))"
proof -
  let ?s1 = "logger Debug (AlreadyContains (psm_list_feature_names (fst s))) s"
  let ?names0 = "[(''psm_file'', psm_list_feature_names (fst s))]"
  let ?r = "add_rescoring_features env cfg (feature_generators cfg) ?names0 ?s1"
  have a: "extends (\<lambda>e. stage e \<in> {5, 6}) (snd s) (snd ?s1)"
    by (simp add: extends_def logger_def)
  have b: "extends (\<lambda>e. stage e \<in> {5, 6}) (snd ?s1) (trace (\<lambda>x. snd (snd x)) ?r)"
    by (rule extends_mono [OF add_rescoring_features_footprint]) simp
  have c: "extends (\<lambda>e. stage e \<in> {5, 6}) (snd s) (trace (\<lambda>x. snd (snd x)) ?r)"
    using a b by (rule extends_trans)
  show ?thesis
    unfolding annotate_and_filter_def Let_def
  proof (rule bind_footprint [where h = "\<lambda>x. snd (snd x)"], rule c)
    fix a assume "?r = Inr a"
    obtain names s2 where a: "a = (names, s2)" by (cases a)
    have "extends (\<lambda>e. stage e \<in> {5, 6}) (snd s2) (snd (filter_features (all_feature_names names) s2))"
      by (rule extends_mono [OF filter_features_footprint]) simp
    then show "extends (\<lambda>e. stage e \<in> {5, 6}) ((\<lambda>x. snd (snd x)) a)
          (trace (\<lambda>x. snd (snd x)) (case a of (names, s2) \<Rightarrow>
             Inr (all_feature_names names,
                  fst (filter_features (all_feature_names names) s2),
                  snd (filter_features (all_feature_names names) s2) @
                    [WriteFeatureNames (output_path cfg @ ''.feature_names.tsv'') names])))"
      using a by (simp add: trace_def extends_snoc)
  qed
qed

lemma rename_usi_footprint:
  "extends (\<lambda>e. stage e = 7) (snd s) (trace snd (rename_usi env cfg s))"
  by (auto simp: rename_usi_def trace_def extends_def logger_def Let_def split: sum.splits)

lemma run_engine_footprint:
  "extends (\<lambda>e. stage e = 8) (snd s) (trace snd (run_engine env cfg s))"
  by (auto simp: run_engine_def trace_def extends_def logger_def call_def split: sum.splits option.splits)

lemma compare_results_footprint:
  "extends (\<lambda>e. stage e = 9) (snd s) (trace snd (compare_results n s))"
  by (auto simp: compare_results_def trace_def extends_def logger_def Let_def split: sum.splits)

lemma write_output_footprint:
  "extends (\<lambda>e. stage e = 10) (snd s) (snd (write_output cfg s))"
  by (simp add: write_output_def extends_def logger_def)

lemma write_pin_footprint:
  "extends (\<lambda>e. stage e = 8) (snd s) (snd (write_pin cfg all_names s))"
  by (simp add: write_pin_def extends_def logger_def)

lemma export_or_rescore_footprint:
  "extends (\<lambda>e. 8 \<le> stage e) (snd s) (trace snd (export_or_rescore env cfg n all_names s))"
proof (cases "rescoring_engine cfg = []")
  case True
  then show ?thesis
    using extends_mono [OF write_pin_footprint [of s cfg all_names], of "\<lambda>e. 8 \<le> stage e"]
    by (simp add: export_or_rescore_def trace_def)
next
  case False
  have "extends (\<lambda>e. 8 \<le> stage e) (snd s)
          (trace snd (bind_result (run_engine env cfg s)
             (\<lambda>s1. bind_result (compare_results n s1) (\<lambda>s2. Inr (write_output cfg s2)))))"
  proof (rule bind_footprint [where h = snd])
    show "extends (\<lambda>e. 8 \<le> stage e) (snd s) (trace snd (run_engine env cfg s))"
      by (rule extends_mono [OF run_engine_footprint]) simp
  next
    fix s1
    show "extends (\<lambda>e. 8 \<le> stage e) (snd s1)
            (trace snd (bind_result (compare_results n s1) (\<lambda>s2. Inr (write_output cfg s2))))"
    proof (rule bind_footprint [where h = snd])
      show "extends (\<lambda>e. 8 \<le> stage e) (snd s1) (trace snd (compare_results n s1))"
        by (rule extends_mono [OF compare_results_footprint]) simp
    next
      fix s2
      show "extends (\<lambda>e. 8 \<le> stage e) (snd s2) (trace snd (Inr (write_output cfg s2)))"
        using extends_mono [OF write_output_footprint [of s2 cfg], of "\<lambda>e. 8 \<le> stage e"]
        by (simp add: trace_def)
    qed
  qed
  with False show ?thesis by (simp add: export_or_rescore_def)
qed

lemma rescore_after_baseline_footprint:
  "extends (\<lambda>e. 4 \<le> stage e) (snd s) (trace snd (rescore_after_baseline env cfg n s))"
  unfolding rescore_after_baseline_def
proof (rule bind_footprint [where h = snd])
  show "extends (\<lambda>e. 4 \<le> stage e) (snd s) (trace snd (normalize env cfg (snapshot s)))"
    using extends_mono [OF normalize_footprint [of "snapshot s" env cfg], of "\<lambda>e. 4 \<le> stage e"]
    by (simp add: snapshot_def)
next
  fix s2
  show "extends (\<lambda>e. 4 \<le> stage e) (snd s2)
          (trace snd (bind_result (annotate_and_filter env cfg s2)
             (\<lambda>(all_names, s3). bind_result (rename_usi env cfg s3)
                (export_or_rescore env cfg n all_names))))"
  proof (rule bind_footprint [where h = "\<lambda>x. snd (snd x)"])
    show "extends (\<lambda>e. 4 \<le> stage e) (snd s2)
            (trace (\<lambda>x. snd (snd x)) (annotate_and_filter env cfg s2))"
      by (rule extends_mono [OF annotate_and_filter_footprint]) auto
  next
    fix a :: "string set \<times> state"
    obtain all_names s3 where a: "a = (all_names, s3)" by (cases a)
    have "extends (\<lambda>e. 4 \<le> stage e) (snd s3)
            (trace snd (bind_result (rename_usi env cfg s3) (export_or_rescore env cfg n all_names)))"
    proof (rule bind_footprint [where h = snd])
      show "extends (\<lambda>e. 4 \<le> stage e) (snd s3) (trace snd (rename_usi env cfg s3))"
        by (rule extends_mono [OF rename_usi_footprint]) simp
    next
      fix s4
      show "extends (\<lambda>e. 4 \<le> stage e) (snd s4)
              (trace snd (export_or_rescore env cfg n all_names s4))"
        by (rule extends_mono [OF export_or_rescore_footprint]) simp
    qed
    with a show "extends (\<lambda>e. 4 \<le> stage e) (snd (snd a))
            (trace snd (case a of (all_names, s3) \<Rightarrow>
               bind_result (rename_usi env cfg s3) (export_or_rescore env cfg n all_names)))"
      by simp
  qed
qed

lemma bind_prefix:
  assumes "\<And>a. r = Inr a \<Longrightarrow> extends P (h a) (trace g (f a))"
  shows "extends P (trace h r) (trace g (bind_result r f))"
proof (cases r)
  case (Inl x)
  then show ?thesis by (simp add: bind_result_def trace_def extends_refl)
next
  case (Inr a)
  with assms [OF Inr] show ?thesis by (simp add: bind_result_def trace_def)
qed

lemma read_psms_stage:
  assumes "read_psms env cfg psm_list = Inr s0" and "e \<in> set (snd s0)"
  shows "stage e = 0"
  using read_psms_footprint [of env cfg psm_list] assms
  by (auto simp: trace_def extends_def list_all_iff)

lemma label_decoys_stage:
  assumes "read_psms env cfg psm_list = Inr s0" and "label_decoys env cfg s0 = Inr s1"
    and "e \<in> set (snd s1)"
  shows "stage e \<le> 1"
proof -
  from label_decoys_footprint [of s0 env cfg] assms(2)
  have "extends (\<lambda>e. stage e = 1) (snd s0) (snd s1)" by (simp add: trace_def)
  from extends_mem [OF this assms(3)] read_psms_stage [OF assms(1)] show ?thesis by auto
qed

lemma tail_after_qvalues:
  "extends (\<lambda>e. e \<noteq> Invoke CalculateQvalues) (snd s2)
     (trace snd (bind_result (count_before s2) (\<lambda>(n, s). rescore_after_baseline env cfg n s)))"
proof (rule bind_footprint [where h = "\<lambda>x. snd (snd x)"])
  show "extends (\<lambda>e. e \<noteq> Invoke CalculateQvalues) (snd s2) (trace (\<lambda>x. snd (snd x)) (count_before s2))"
    by (auto simp: count_before_def trace_def extends_def logger_def split: sum.splits)
next
  fix a :: "nat \<times> state"
  obtain n s where a: "a = (n, s)" by (cases a)
  have "extends (\<lambda>e. e \<noteq> Invoke CalculateQvalues) (snd s) (trace snd (rescore_after_baseline env cfg n s))"
    by (rule extends_mono [OF rescore_after_baseline_footprint]) auto
  with a show "extends (\<lambda>e. e \<noteq> Invoke CalculateQvalues) (snd (snd a))
      (trace snd (case a of (n, s) \<Rightarrow> rescore_after_baseline env cfg n s))"
    by simp
qed

section \<open>The feature registry and the filter\<close>

lemma mask_select_map: "mask_select xs (map P xs) = filter P xs"
  by (induction xs) (simp_all add: mask_select_def)

lemma update_new_key: "k \<notin> fst ` set al \<Longrightarrow> AList.update k v al = al @ [(k, v)]"
  by (induction al) auto

lemma all_feature_names_update_new:
  "k \<notin> fst ` set names \<Longrightarrow> all_feature_names (AList.update k v names) = all_feature_names names \<union> v"
  by (auto simp: update_new_key all_feature_names_def)

lemma run_generator_registered:
  "run_generator env cfg n c s = Inr a \<Longrightarrow> FEATURE_GENERATORS env n \<noteq> None"
  by (auto simp: run_generator_def split: option.splits)

lemma loop_reserved_key:
  assumes "add_rescoring_features env cfg gens names s = Inr r"
    and "FEATURE_GENERATORS env ''psm_file'' = None"
  shows "''psm_file'' \<notin> fst ` set gens"
  using assms(1)
proof (induction gens arbitrary: names s)
  case Nil
  show ?case by simp
next
  case (Cons g gens)
  obtain n c where g: "g = (n, c)" by (cases g)
  show ?case
  proof (cases "skipped n (fst s)")
    case True
    then have "n = ''maxquant''" by (simp add: skipped_def)
    moreover from True g Cons.prems have "add_rescoring_features env cfg gens names s = Inr r" by simp
    then have "''psm_file'' \<notin> fst ` set gens" by (rule Cons.IH)
    ultimately show ?thesis using g by simp
  next
    case False
    with g Cons.prems obtain fs s1 where run: "run_generator env cfg n c s = Inr (fs, s1)"
      and rest: "add_rescoring_features env cfg gens (AList.update n fs names) s1 = Inr r"
      by (auto split: sum.splits)
    from run_generator_registered [OF run] assms(2) have "n \<noteq> ''psm_file''" by auto
    moreover from rest have "''psm_file'' \<notin> fst ` set gens" by (rule Cons.IH)
    ultimately show ?thesis using g by simp
  qed
qed

lemma loop_union:
  assumes "add_rescoring_features env cfg gens names s = Inr (names', s')"
    and "distinct (map fst gens)"
    and "fst ` set gens \<inter> fst ` set names = {}"
  shows "all_feature_names names' = all_feature_names names \<union> generator_feature_names env cfg gens s"
  using assms
proof (induction gens arbitrary: names s)
  case Nil
  then show ?case by simp
next
  case (Cons g gens)
  obtain n c where g: "g = (n, c)" by (cases g)
  from Cons.prems(2) g have d: "distinct (map fst gens)" and n: "n \<notin> fst ` set gens" by auto
  show ?case
  proof (cases "skipped n (fst s)")
    case True
    with g Cons.prems(1) have "add_rescoring_features env cfg gens names s = Inr (names', s')" by simp
    moreover from Cons.prems(3) have "fst ` set gens \<inter> fst ` set names = {}" by auto
    ultimately have "all_feature_names names' = all_feature_names names \<union> generator_feature_names env cfg gens s"
      using d by (intro Cons.IH)
    with True g show ?thesis by simp
  next
    case False
    with g Cons.prems(1) obtain fs s1 where run: "run_generator env cfg n c s = Inr (fs, s1)"
      and rest: "add_rescoring_features env cfg gens (AList.update n fs names) s1 = Inr (names', s')"
      by (auto split: sum.splits)
    from Cons.prems(3) g have new: "n \<notin> fst ` set names" by auto
    have "fst ` set gens \<inter> fst ` set (AList.update n fs names) = {}"
      using Cons.prems(3) n by (auto simp: dom_update)
    with rest d have "all_feature_names names'
        = all_feature_names (AList.update n fs names) \<union> generator_feature_names env cfg gens s1"
      by (intro Cons.IH)
    with False g run new show ?thesis
      by (simp add: all_feature_names_update_new Un_assoc)
  qed
qed

lemma filter_features_fst:
  "fst (filter_features all_names s) = filter (\<lambda>p. keys (rescoring_features p) = all_names) (fst s)"
  by (simp add: filter_features_def Let_def psms_with_features_def mask_select_map logger_def)




section \<open>Stages with an explicit result\<close>

lemma read_psms_given:
  "psms \<noteq> [] \<Longrightarrow> read_psms env cfg (Some psms)
     = Inr (psms, [WriteFullConfig (output_path cfg @ ''.full-config.json''),
                   Log Debug (UsingCPUs (processes cfg) (cpu_count env)), Log Info ReadingPSMs])"
  by (simp add: read_psms_def)

lemma baseline_without_pattern:
  assumes "id_decoy_pattern cfg = None" and "list_ex is_decoy psms"
    and "None \<notin> set (map qvalue psms)"
  shows "baseline env cfg (psms, evs)
     = Inr (length (filter identified psms), psms,
            evs @ [Log Debug FindingDecoys,
                   Log Info (FoundPSMs (length psms)
                      (real (length (filter is_decoy psms)) / real (length psms) * 100)),
                   Log Info (IdentifiedBefore (length (filter identified psms)))])"
proof -
  from assms(2) have ne: "psms \<noteq> []" by auto
  have lab: "label_decoys env cfg (psms, evs)
     = Inr (psms, evs @ [Log Debug FindingDecoys,
                   Log Info (FoundPSMs (length psms)
                      (real (length (filter is_decoy psms)) / real (length psms) * 100))])"
    using assms(1,2) ne
    by (simp add: label_decoys_def apply_decoy_pattern_def check_decoys_def percent_decoys_def
          py_truediv_def bind_result_def logger_def)
  show ?thesis
    using assms(3)
    by (simp add: baseline_def lab bind_result_def ensure_qvalues_def count_before_def
          id_psms_def logger_def)
qed

lemma check_decoys_without_decoy:
  assumes "fst s \<noteq> []" and "\<not> list_ex is_decoy (fst s)"
  shows "check_decoys s
     = Inl (MS2RescoreConfigurationError, snd s @ [Log Info (FoundPSMs (length (fst s)) 0)])"
proof -
  from assms(2) have "filter is_decoy (fst s) = []"
    by (simp add: filter_empty_conv list_ex_iff)
  with assms show ?thesis
    by (simp add: check_decoys_def percent_decoys_def py_truediv_def logger_def)
qed

lemma assign_spectrum_id_map:
  "assign_spectrum_id psms (map f psms) = Inr (map (\<lambda>p. p\<lparr>spectrum_id := f p\<rparr>) psms)"
proof -
  have "map (\<lambda>(p, v). p\<lparr>spectrum_id := v\<rparr>) (zip psms (map f psms))
          = map (\<lambda>p. p\<lparr>spectrum_id := f p\<rparr>) psms"
    by (induction psms) simp_all
  then show ?thesis by (simp add: assign_spectrum_id_def)
qed

lemma spectrum_ids_to_str_eq:
  "spectrum_ids_to_str s
     = Inr (map (\<lambda>p. p\<lparr>spectrum_id := IdStr (py_str (spectrum_id p))\<rparr>) (fst s), snd s)"
  by (simp add: spectrum_ids_to_str_def assign_spectrum_id_map)

lemma apply_psm_id_pattern_none:
  "psm_id_pattern cfg = None \<Longrightarrow> apply_psm_id_pattern env cfg s = Inr (logger Debug ApplyingPsmIdPattern s)"
  by (simp add: apply_psm_id_pattern_def)

lemma example_parse_modifications:
  "parse_modifications example_env cfg s
     = Inr (fst s, snd s @ [Log Debug ParsingModifications, Invoke RenameModifications,
                            Invoke AddFixedModifications, Invoke ApplyFixedModifications])"
  by (simp add: parse_modifications_def bind_result_def call_def logger_def example_env_def idle_env_def)

lemma example_normalize:
  "psm_id_pattern cfg = None \<Longrightarrow> normalize example_env cfg s
     = Inr (map (\<lambda>p. p\<lparr>spectrum_id := IdStr (py_str (spectrum_id p))\<rparr>) (fst s),
            snd s @ [Log Debug ParsingModifications, Invoke RenameModifications,
                     Invoke AddFixedModifications, Invoke ApplyFixedModifications,
                     Log Debug ApplyingPsmIdPattern])"
  by (simp add: normalize_def example_parse_modifications apply_psm_id_pattern_none
        spectrum_ids_to_str_eq bind_result_def logger_def)

lemma rename_usi_off: "\<not> rename_to_usi cfg \<Longrightarrow> rename_usi env cfg s = Inr s"
  by (simp add: rename_usi_def)

lemma example_percolator:
  assumes "map_of (rescoring_engine cfg) ''percolator'' = Some kw"
  shows "run_engine example_env cfg s
     = Inr (map (\<lambda>p. p\<lparr>score := score p + 100\<rparr>) (fst s), snd s @ [Invoke PercolatorRescore])"
  using assms by (simp add: run_engine_def call_def example_env_def idle_env_def)

lemma example_annotate_two:
  "feature_generators cfg = [(''basic'', [])] \<Longrightarrow> output_path cfg = ''out'' \<Longrightarrow>
   annotate_and_filter example_env cfg (map store_scoring_values [target_psm, decoy_psm], evs)
     = Inr ({''charge_n''},
            [(store_scoring_values target_psm)\<lparr>rescoring_features := [(''charge_n'', 2)]\<rparr>,
             (store_scoring_values decoy_psm)\<lparr>rescoring_features := [(''charge_n'', 2)]\<rparr>],
            evs @ [Log Debug (AlreadyContains {}), Invoke (AddFeatures ''basic''),
                   Log Debug (AddingFeaturesFrom ''basic'' {''charge_n''}),
                   WriteFeatureNames ''out.feature_names.tsv''
                     [(''psm_file'', {}), (''basic'', {''charge_n''})]])"
  by (simp add: annotate_and_filter_def psm_list_feature_names_def keys_def logger_def
        bind_result_def skipped_def run_generator_def call_def example_env_def idle_env_def
        example_generator_def target_psm_def decoy_psm_def store_scoring_values_def
        all_feature_names_def filter_features_def psms_with_features_def mask_select_def
        missing_features_def Let_def)

section \<open>The run as a sequence of stages\<close>

lemma rescore_stages:
  assumes "read_psms env cfg psm_list = Inr s0" and "baseline env cfg s0 = Inr (n, s1)"
    and "normalize env cfg (snapshot s1) = Inr s2"
    and "annotate_and_filter env cfg s2 = Inr (all_names, s3)"
    and "rename_usi env cfg s3 = Inr s4"
  shows "rescore env cfg psm_list = export_or_rescore env cfg n all_names s4"
  using assms by (simp add: rescore_def rescore_after_baseline_def bind_result_def)

lemma rescore_InrE:
  assumes "rescore env cfg psm_list = Inr out"
  obtains s0 n s1 s2 all_names s3 s4 where
    "read_psms env cfg psm_list = Inr s0" and "baseline env cfg s0 = Inr (n, s1)"
    and "normalize env cfg (snapshot s1) = Inr s2"
    and "annotate_and_filter env cfg s2 = Inr (all_names, s3)"
    and "rename_usi env cfg s3 = Inr s4"
    and "export_or_rescore env cfg n all_names s4 = Inr out"
proof -
  from assms obtain s0 where rd: "read_psms env cfg psm_list = Inr s0"
    by (cases "read_psms env cfg psm_list") (simp_all add: rescore_def bind_result_def)
  with assms obtain n s1 where bl: "baseline env cfg s0 = Inr (n, s1)"
    by (cases "baseline env cfg s0") (auto simp: rescore_def bind_result_def)
  with rd assms have rest: "rescore_after_baseline env cfg n s1 = Inr out"
    by (simp add: rescore_def bind_result_def)
  then obtain s2 where nm: "normalize env cfg (snapshot s1) = Inr s2"
    by (cases "normalize env cfg (snapshot s1)") (simp_all add: rescore_after_baseline_def bind_result_def)
  with rest obtain all_names s3 where an: "annotate_and_filter env cfg s2 = Inr (all_names, s3)"
    by (cases "annotate_and_filter env cfg s2") (auto simp: rescore_after_baseline_def bind_result_def)
  with nm rest obtain s4 where ru: "rename_usi env cfg s3 = Inr s4"
    by (cases "rename_usi env cfg s3") (simp_all add: rescore_after_baseline_def bind_result_def)
  with an nm rest have "export_or_rescore env cfg n all_names s4 = Inr out"
    by (simp add: rescore_after_baseline_def bind_result_def)
  with rd bl nm an ru show ?thesis by (rule that)
qed

lemma assign_spectrum_id_frame:
  assumes "assign_spectrum_id psms vals = Inr psms'"
    and "\<And>p v. f (p\<lparr>spectrum_id := v\<rparr>) = f p"
  shows "map f psms' = map f psms"
proof -
  from assms(1) have len: "length vals = length psms"
    and out: "psms' = map (\<lambda>(p, v). p\<lparr>spectrum_id := v\<rparr>) (zip psms vals)"
    by (auto simp: assign_spectrum_id_def split: if_splits)
  have "map f (map (\<lambda>(p, v). p\<lparr>spectrum_id := v\<rparr>) (zip psms vals)) = map f (map fst (zip psms vals))"
    by (simp add: assms(2) case_prod_unfold)
  also have "\<dots> = map f psms" using len by simp
  finally show ?thesis using out by simp
qed

lemma rename_usi_frame:
  assumes "rename_usi env cfg s = Inr s'"
    and "\<And>p v. f (p\<lparr>spectrum_id := v\<rparr>) = f p"
  shows "map f (fst s') = map f (fst s)"
  using assms(1) assign_spectrum_id_frame [where f = f, OF _ assms(2)]
  by (auto simp: rename_usi_def logger_def Let_def split: if_splits sum.splits)

lemma rescore_footprint:
  assumes early: "\<And>e. stage e \<le> 7 \<Longrightarrow> P e"
    and export: "\<And>n all_names s. extends P (snd s) (trace snd (export_or_rescore env cfg n all_names s))"
  shows "extends P [] (trace snd (rescore env cfg psm_list))"
  unfolding rescore_def
proof (rule bind_footprint [where h = snd])
  show "extends P [] (trace snd (read_psms env cfg psm_list))"
    by (rule extends_mono [OF read_psms_footprint]) (simp add: early)
next
  fix s0
  show "extends P (snd s0) (trace snd (bind_result (baseline env cfg s0)
          (\<lambda>(id_psms_before, s1). rescore_after_baseline env cfg id_psms_before s1)))"
  proof (rule bind_footprint [where h = "\<lambda>x. snd (snd x)"])
    show "extends P (snd s0) (trace (\<lambda>x. snd (snd x)) (baseline env cfg s0))"
      by (rule extends_mono [OF baseline_footprint]) (auto intro: early)
  next
    fix a :: "nat \<times> state"
    obtain n s1 where a: "a = (n, s1)" by (cases a)
    have "extends P (snd s1) (trace snd (rescore_after_baseline env cfg n s1))"
      unfolding rescore_after_baseline_def
    proof (rule bind_footprint [where h = snd])
      show "extends P (snd s1) (trace snd (normalize env cfg (snapshot s1)))"
        using extends_mono [OF normalize_footprint [of "snapshot s1" env cfg], of P]
        by (simp add: snapshot_def early)
    next
      fix s2
      show "extends P (snd s2) (trace snd (bind_result (annotate_and_filter env cfg s2)
              (\<lambda>(all_names, s3). bind_result (rename_usi env cfg s3)
                 (export_or_rescore env cfg n all_names))))"
      proof (rule bind_footprint [where h = "\<lambda>x. snd (snd x)"])
        show "extends P (snd s2) (trace (\<lambda>x. snd (snd x)) (annotate_and_filter env cfg s2))"
          by (rule extends_mono [OF annotate_and_filter_footprint]) (auto intro: early)
      next
        fix b :: "string set \<times> state"
        obtain all_names s3 where b: "b = (all_names, s3)" by (cases b)
        have "extends P (snd s3) (trace snd (bind_result (rename_usi env cfg s3)
                (export_or_rescore env cfg n all_names)))"
        proof (rule bind_footprint [where h = snd])
          show "extends P (snd s3) (trace snd (rename_usi env cfg s3))"
            by (rule extends_mono [OF rename_usi_footprint]) (simp add: early)
        next
          fix s4
          show "extends P (snd s4) (trace snd (export_or_rescore env cfg n all_names s4))"
            by (rule export)
        qed
        with b show "extends P (snd (snd b)) (trace snd (case b of (all_names, s3) \<Rightarrow>
            bind_result (rename_usi env cfg s3) (export_or_rescore env cfg n all_names)))"
          by simp
      qed
    qed
    with a show "extends P (snd (snd a))
        (trace snd (case a of (id_psms_before, s1) \<Rightarrow> rescore_after_baseline env cfg id_psms_before s1))"
      by simp
  qed
qed


lemma example_annotate_three:
  "feature_generators cfg = [(''basic'', [])] \<Longrightarrow> output_path cfg = ''out'' \<Longrightarrow>
   annotate_and_filter example_env cfg
       (map store_scoring_values [target_psm, second_rank_psm, decoy_psm], evs)
     = Inr ({''charge_n''},
            [(store_scoring_values target_psm)\<lparr>rescoring_features := [(''charge_n'', 2)]\<rparr>,
             (store_scoring_values decoy_psm)\<lparr>rescoring_features := [(''charge_n'', 2)]\<rparr>],
            evs @ [Log Debug (AlreadyContains {}), Invoke (AddFeatures ''basic''),
                   Log Debug (AddingFeaturesFrom ''basic'' {''charge_n''}),
                   Log Warning (RemovedPSMs 1 {''charge_n''}),
                   WriteFeatureNames ''out.feature_names.tsv''
                     [(''psm_file'', {}), (''basic'', {''charge_n''})]])"
  by (simp add: annotate_and_filter_def psm_list_feature_names_def keys_def logger_def
        bind_result_def skipped_def run_generator_def call_def example_env_def idle_env_def
        example_generator_def target_psm_def decoy_psm_def second_rank_psm_def
        store_scoring_values_def all_feature_names_def filter_features_def
        psms_with_features_def mask_select_def missing_features_def Let_def)

lemma example_prefix_three:
  assumes "id_decoy_pattern cfg = None" "psm_id_pattern cfg = None" "\<not> rename_to_usi cfg"
    "output_path cfg = ''out''" "processes cfg = 1" "feature_generators cfg = [(''basic'', [])]"
  shows "rescore example_env cfg (Some [target_psm, second_rank_psm, decoy_psm])
     = export_or_rescore example_env cfg 2 {''charge_n''}
         ([(store_scoring_values target_psm)\<lparr>rescoring_features := [(''charge_n'', 2)]\<rparr>,
           (store_scoring_values decoy_psm)\<lparr>rescoring_features := [(''charge_n'', 2)]\<rparr>],
          [WriteFullConfig ''out.full-config.json'', Log Debug (UsingCPUs 1 4),
           Log Info ReadingPSMs, Log Debug FindingDecoys, Log Info (FoundPSMs 3 (100 / 3)),
           Log Info (IdentifiedBefore 2), Log Debug ParsingModifications,
           Invoke RenameModifications, Invoke AddFixedModifications,
           Invoke ApplyFixedModifications, Log Debug ApplyingPsmIdPattern,
           Log Debug (AlreadyContains {}), Invoke (AddFeatures ''basic''),
           Log Debug (AddingFeaturesFrom ''basic'' {''charge_n''}),
           Log Warning (RemovedPSMs 1 {''charge_n''}),
           WriteFeatureNames ''out.feature_names.tsv''
             [(''psm_file'', {}), (''basic'', {''charge_n''})]])"
proof -
  let ?psms = "[target_psm, second_rank_psm, decoy_psm]"
  let ?evs0 = "[WriteFullConfig ''out.full-config.json'', Log Debug (UsingCPUs 1 4),
                Log Info ReadingPSMs]"
  let ?evs1 = "?evs0 @ [Log Debug FindingDecoys, Log Info (FoundPSMs 3 (100 / 3)),
                Log Info (IdentifiedBefore 2)]"
  let ?evs2 = "?evs1 @ [Log Debug ParsingModifications, Invoke RenameModifications,
                Invoke AddFixedModifications, Invoke ApplyFixedModifications,
                Log Debug ApplyingPsmIdPattern]"
  let ?evs3 = "?evs2 @ [Log Debug (AlreadyContains {}), Invoke (AddFeatures ''basic''),
                Log Debug (AddingFeaturesFrom ''basic'' {''charge_n''}),
                Log Warning (RemovedPSMs 1 {''charge_n''}),
                WriteFeatureNames ''out.feature_names.tsv''
                  [(''psm_file'', {}), (''basic'', {''charge_n''})]]"
  let ?out = "[(store_scoring_values target_psm)\<lparr>rescoring_features := [(''charge_n'', 2)]\<rparr>,
               (store_scoring_values decoy_psm)\<lparr>rescoring_features := [(''charge_n'', 2)]\<rparr>]"
  have rd: "read_psms example_env cfg (Some ?psms) = Inr (?psms, ?evs0)"
    by (simp add: read_psms_given assms example_env_def idle_env_def)
  have bl: "baseline example_env cfg (?psms, ?evs0) = Inr (2, ?psms, ?evs1)"
    by (subst baseline_without_pattern)
       (simp_all add: assms identified_def target_psm_def second_rank_psm_def decoy_psm_def)
  have nm: "normalize example_env cfg (snapshot (?psms, ?evs1))
              = Inr (map store_scoring_values ?psms, ?evs2)"
    by (simp add: example_normalize assms snapshot_def store_scoring_values_def
          target_psm_def second_rank_psm_def decoy_psm_def)
  have an: "annotate_and_filter example_env cfg (map store_scoring_values ?psms, ?evs2)
              = Inr ({''charge_n''}, ?out, ?evs3)"
    using example_annotate_three [of cfg ?evs2] by (simp add: assms)
  have ru: "rename_usi example_env cfg (?out, ?evs3) = Inr (?out, ?evs3)"
    by (simp add: rename_usi_off assms)
  from rescore_stages [OF rd bl nm an ru] show ?thesis by simp
qed

section \<open>The spectrum identifier pattern\<close>






section \<open>The provenance data through the stages\<close>

lemma store_scoring_values_lookup:
  "map_of (provenance_data (store_scoring_values p)) ''before_rescoring_score'' = Some (PFloat (score p))"
  "map_of (provenance_data (store_scoring_values p)) ''before_rescoring_qvalue''
     = Some (case qvalue p of None \<Rightarrow> PNone | Some q \<Rightarrow> PFloat q)"
  "map_of (provenance_data (store_scoring_values p)) ''before_rescoring_pep''
     = Some (case pep p of None \<Rightarrow> PNone | Some q \<Rightarrow> PFloat q)"
  "map_of (provenance_data (store_scoring_values p)) ''before_rescoring_rank'' = Some (PInt (rank p))"
  by (simp_all add: store_scoring_values_def update_conv')

lemma store_scoring_values_fields:
  "score (store_scoring_values p) = score p" "qvalue (store_scoring_values p) = qvalue p"
  "pep (store_scoring_values p) = pep p" "rank (store_scoring_values p) = rank p"
  "spectrum_id (store_scoring_values p) = spectrum_id p"
  "rescoring_features (store_scoring_values p) = rescoring_features p"
  by (simp_all add: store_scoring_values_def)

lemma before_scores_snapshot:
  "before_scores (fst (snapshot s)) = map (\<lambda>p. Some (PFloat (score p))) (fst s)"
  by (simp add: before_scores_def snapshot_def store_scoring_values_lookup)

lemma call_keeps:
  assumes "keeps_before_scores f" and "call c f s = Inr s'"
  shows "before_scores (fst s') = before_scores (fst s)"
  using assms by (auto simp: keeps_before_scores_def call_def split: sum.splits)

lemma parse_modifications_keeps:
  assumes "keeps_before_scores (rename_modifications env (modification_mapping cfg))"
    and "keeps_before_scores (add_fixed_modifications env (fixed_modifications cfg))"
    and "keeps_before_scores (apply_fixed_modifications env)"
    and "parse_modifications env cfg s = Inr s'"
  shows "before_scores (fst s') = before_scores (fst s)"
proof -
  from assms(4) obtain sa sb where
    a: "call RenameModifications (rename_modifications env (modification_mapping cfg))
          (logger Debug ParsingModifications s) = Inr sa"
    and b: "call AddFixedModifications (add_fixed_modifications env (fixed_modifications cfg)) sa = Inr sb"
    and c: "call ApplyFixedModifications (apply_fixed_modifications env) sb = Inr s'"
    by (auto simp: parse_modifications_def bind_result_def split: sum.splits)
  from call_keeps [OF assms(1) a] call_keeps [OF assms(2) b] call_keeps [OF assms(3) c]
  show ?thesis by (simp add: logger_def)
qed

lemma assign_keeps:
  "assign_spectrum_id psms vals = Inr psms' \<Longrightarrow> before_scores psms' = before_scores psms"
  unfolding before_scores_def
  by (rule assign_spectrum_id_frame) simp_all

lemma normalize_keeps:
  assumes "keeps_before_scores (rename_modifications env (modification_mapping cfg))"
    and "keeps_before_scores (add_fixed_modifications env (fixed_modifications cfg))"
    and "keeps_before_scores (apply_fixed_modifications env)"
    and "normalize env cfg s = Inr s'"
  shows "before_scores (fst s') = before_scores (fst s)"
proof -
  from assms(4) obtain sa sb where
    a: "parse_modifications env cfg s = Inr sa"
    and b: "apply_psm_id_pattern env cfg sa = Inr sb"
    and c: "spectrum_ids_to_str sb = Inr s'"
    by (auto simp: normalize_def bind_result_def split: sum.splits)
  from b have "before_scores (fst sb) = before_scores (fst sa)"
    by (auto simp: apply_psm_id_pattern_def logger_def Let_def assign_keeps
             split: option.splits if_splits sum.splits)
  moreover from c have "before_scores (fst s') = before_scores (fst sb)"
    by (auto simp: spectrum_ids_to_str_def assign_keeps split: sum.splits)
  ultimately show ?thesis
    using parse_modifications_keeps [OF assms(1-3) a] by simp
qed

lemma run_generator_keeps:
  assumes "\<forall>name factory kw g. FEATURE_GENERATORS env name = Some factory \<longrightarrow> factory cfg kw = Inr g
              \<longrightarrow> keeps_before_scores (add_features g)"
    and "run_generator env cfg n c s = Inr (fs, s')"
  shows "before_scores (fst s') = before_scores (fst s)"
proof -
  from assms(2) obtain factory g s1 where f: "FEATURE_GENERATORS env n = Some factory"
    and g: "factory cfg c = Inr g"
    and c: "call (AddFeatures n) (add_features g) s = Inr s1"
    and s': "s' = logger Debug (AddingFeaturesFrom n (set (feature_names g))) s1"
    by (auto simp: run_generator_def split: option.splits sum.splits)
  from assms(1) f g have "keeps_before_scores (add_features g)" by blast
  from call_keeps [OF this c] s' show ?thesis by (simp add: logger_def)
qed

lemma add_rescoring_features_keeps:
  assumes "\<forall>name factory kw g. FEATURE_GENERATORS env name = Some factory \<longrightarrow> factory cfg kw = Inr g
              \<longrightarrow> keeps_before_scores (add_features g)"
    and "add_rescoring_features env cfg gens names s = Inr (names', s')"
  shows "before_scores (fst s') = before_scores (fst s)"
  using assms(2)
proof (induction gens arbitrary: names s)
  case Nil
  then show ?case by simp
next
  case (Cons g gens)
  obtain n c where g: "g = (n, c)" by (cases g)
  show ?case
  proof (cases "skipped n (fst s)")
    case True
    with g Cons.prems have "add_rescoring_features env cfg gens names s = Inr (names', s')" by simp
    then show ?thesis by (rule Cons.IH)
  next
    case False
    with g Cons.prems obtain fs s1 where run: "run_generator env cfg n c s = Inr (fs, s1)"
      and rest: "add_rescoring_features env cfg gens (AList.update n fs names) s1 = Inr (names', s')"
      by (auto split: sum.splits)
    from Cons.IH [OF rest] run_generator_keeps [OF assms(1) run] show ?thesis by simp
  qed
qed

lemma annotate_and_filter_subseq:
  assumes "\<forall>name factory kw g. FEATURE_GENERATORS env name = Some factory \<longrightarrow> factory cfg kw = Inr g
              \<longrightarrow> keeps_before_scores (add_features g)"
    and "annotate_and_filter env cfg s = Inr (all_names, s')"
  shows "subseq (before_scores (fst s')) (before_scores (fst s))"
proof -
  from assms(2) obtain names sa where
    loop: "add_rescoring_features env cfg (feature_generators cfg)
             [(''psm_file'', psm_list_feature_names (fst s))]
             (logger Debug (AlreadyContains (psm_list_feature_names (fst s))) s) = Inr (names, sa)"
    and out: "fst s' = fst (filter_features all_names sa)"
    by (auto simp: annotate_and_filter_def bind_result_def Let_def split: sum.splits)
  from add_rescoring_features_keeps [OF assms(1) loop]
  have "before_scores (fst sa) = before_scores (fst s)" by (simp add: logger_def)
  moreover have "subseq (before_scores (fst s')) (before_scores (fst sa))"
    by (simp add: out filter_features_fst before_scores_def subseq_map)
  ultimately show ?thesis by simp
qed

lemma rename_usi_keeps:
  "rename_usi env cfg s = Inr s' \<Longrightarrow> before_scores (fst s') = before_scores (fst s)"
  unfolding before_scores_def by (rule rename_usi_frame) simp_all

lemma export_or_rescore_keeps:
  assumes "\<forall>kw. keeps_before_scores
              (\<lambda>psms. percolator_rescore env psms (output_path cfg) (log_level cfg) (processes cfg) kw)"
    and "\<forall>kw. keeps_before_scores
              (\<lambda>psms. mokapot_rescore env psms (output_path cfg) (fasta_file cfg) kw)"
    and "export_or_rescore env cfg n all_names s = Inr s'"
  shows "before_scores (fst s') = before_scores (fst s)"
proof (cases "rescoring_engine cfg = []")
  case True
  with assms(3) show ?thesis by (auto simp: export_or_rescore_def write_pin_def)
next
  case False
  with assms(3) obtain sa sb where
    a: "run_engine env cfg s = Inr sa"
    and b: "compare_results n sa = Inr sb"
    and c: "s' = write_output cfg sb"
    by (auto simp: export_or_rescore_def bind_result_def split: sum.splits)
  from a assms(1,2) have "before_scores (fst sa) = before_scores (fst s)"
    by (auto simp: run_engine_def logger_def split: option.splits dest: call_keeps [rotated])
  moreover from b have "fst sb = fst sa"
    by (auto simp: compare_results_def logger_def Let_def split: sum.splits if_splits)
  moreover from c have "fst s' = fst sb" by (simp add: write_output_def)
  ultimately show ?thesis by simp
qed



section \<open>The example run with three PSMs\<close>

lemma example_three:
  assumes "id_decoy_pattern cfg = None" "psm_id_pattern cfg = None" "\<not> rename_to_usi cfg"
    "output_path cfg = ''out''" "processes cfg = 1" "feature_generators cfg = [(''basic'', [])]"
  shows "read_psms example_env cfg (Some [target_psm, second_rank_psm, decoy_psm]) = Inr ([target_psm, second_rank_psm, decoy_psm], [WriteFullConfig ''out.full-config.json'', Log Debug (UsingCPUs 1 4), Log Info ReadingPSMs])"
    and "baseline example_env cfg ([target_psm, second_rank_psm, decoy_psm], [WriteFullConfig ''out.full-config.json'', Log Debug (UsingCPUs 1 4), Log Info ReadingPSMs])
      = Inr (2, [target_psm, second_rank_psm, decoy_psm], [WriteFullConfig ''out.full-config.json'', Log Debug (UsingCPUs 1 4), Log Info ReadingPSMs,
      Log Debug FindingDecoys, Log Info (FoundPSMs 3 (100 / 3)), Log Info (IdentifiedBefore 2)])"
    and "normalize example_env cfg (snapshot ([target_psm, second_rank_psm, decoy_psm], [WriteFullConfig ''out.full-config.json'', Log Debug (UsingCPUs 1 4), Log Info ReadingPSMs,
      Log Debug FindingDecoys, Log Info (FoundPSMs 3 (100 / 3)), Log Info (IdentifiedBefore 2)]))
      = Inr (map store_scoring_values [target_psm, second_rank_psm, decoy_psm], [WriteFullConfig ''out.full-config.json'', Log Debug (UsingCPUs 1 4), Log Info ReadingPSMs,
      Log Debug FindingDecoys, Log Info (FoundPSMs 3 (100 / 3)), Log Info (IdentifiedBefore 2),
      Log Debug ParsingModifications, Invoke RenameModifications, Invoke AddFixedModifications,
      Invoke ApplyFixedModifications, Log Debug ApplyingPsmIdPattern])"
    and "annotate_and_filter example_env cfg (map store_scoring_values [target_psm, second_rank_psm, decoy_psm], [WriteFullConfig ''out.full-config.json'', Log Debug (UsingCPUs 1 4), Log Info ReadingPSMs,
      Log Debug FindingDecoys, Log Info (FoundPSMs 3 (100 / 3)), Log Info (IdentifiedBefore 2),
      Log Debug ParsingModifications, Invoke RenameModifications, Invoke AddFixedModifications,
      Invoke ApplyFixedModifications, Log Debug ApplyingPsmIdPattern])
      = Inr ({''charge_n''}, [(store_scoring_values target_psm)\<lparr>rescoring_features := [(''charge_n'', 2)]\<rparr>,
      (store_scoring_values decoy_psm)\<lparr>rescoring_features := [(''charge_n'', 2)]\<rparr>], [WriteFullConfig ''out.full-config.json'', Log Debug (UsingCPUs 1 4), Log Info ReadingPSMs,
      Log Debug FindingDecoys, Log Info (FoundPSMs 3 (100 / 3)), Log Info (IdentifiedBefore 2),
      Log Debug ParsingModifications, Invoke RenameModifications, Invoke AddFixedModifications,
      Invoke ApplyFixedModifications, Log Debug ApplyingPsmIdPattern,
      Log Debug (AlreadyContains {}), Invoke (AddFeatures ''basic''),
      Log Debug (AddingFeaturesFrom ''basic'' {''charge_n''}),
      Log Warning (RemovedPSMs 1 {''charge_n''}),
      WriteFeatureNames ''out.feature_names.tsv'' [(''psm_file'', {}), (''basic'', {''charge_n''})]])"
    and "rename_usi example_env cfg ([(store_scoring_values target_psm)\<lparr>rescoring_features := [(''charge_n'', 2)]\<rparr>,
      (store_scoring_values decoy_psm)\<lparr>rescoring_features := [(''charge_n'', 2)]\<rparr>], [WriteFullConfig ''out.full-config.json'', Log Debug (UsingCPUs 1 4), Log Info ReadingPSMs,
      Log Debug FindingDecoys, Log Info (FoundPSMs 3 (100 / 3)), Log Info (IdentifiedBefore 2),
      Log Debug ParsingModifications, Invoke RenameModifications, Invoke AddFixedModifications,
      Invoke ApplyFixedModifications, Log Debug ApplyingPsmIdPattern,
      Log Debug (AlreadyContains {}), Invoke (AddFeatures ''basic''),
      Log Debug (AddingFeaturesFrom ''basic'' {''charge_n''}),
      Log Warning (RemovedPSMs 1 {''charge_n''}),
      WriteFeatureNames ''out.feature_names.tsv'' [(''psm_file'', {}), (''basic'', {''charge_n''})]])
      = Inr ([(store_scoring_values target_psm)\<lparr>rescoring_features := [(''charge_n'', 2)]\<rparr>,
      (store_scoring_values decoy_psm)\<lparr>rescoring_features := [(''charge_n'', 2)]\<rparr>], [WriteFullConfig ''out.full-config.json'', Log Debug (UsingCPUs 1 4), Log Info ReadingPSMs,
      Log Debug FindingDecoys, Log Info (FoundPSMs 3 (100 / 3)), Log Info (IdentifiedBefore 2),
      Log Debug ParsingModifications, Invoke RenameModifications, Invoke AddFixedModifications,
      Invoke ApplyFixedModifications, Log Debug ApplyingPsmIdPattern,
      Log Debug (AlreadyContains {}), Invoke (AddFeatures ''basic''),
      Log Debug (AddingFeaturesFrom ''basic'' {''charge_n''}),
      Log Warning (RemovedPSMs 1 {''charge_n''}),
      WriteFeatureNames ''out.feature_names.tsv'' [(''psm_file'', {}), (''basic'', {''charge_n''})]])"
proof -
  show "read_psms example_env cfg (Some [target_psm, second_rank_psm, decoy_psm]) = Inr ([target_psm, second_rank_psm, decoy_psm], [WriteFullConfig ''out.full-config.json'', Log Debug (UsingCPUs 1 4), Log Info ReadingPSMs])"
    by (simp add: read_psms_given assms example_env_def idle_env_def)
  show "baseline example_env cfg ([target_psm, second_rank_psm, decoy_psm], [WriteFullConfig ''out.full-config.json'', Log Debug (UsingCPUs 1 4), Log Info ReadingPSMs])
      = Inr (2, [target_psm, second_rank_psm, decoy_psm], [WriteFullConfig ''out.full-config.json'', Log Debug (UsingCPUs 1 4), Log Info ReadingPSMs,
      Log Debug FindingDecoys, Log Info (FoundPSMs 3 (100 / 3)), Log Info (IdentifiedBefore 2)])"
    by (subst baseline_without_pattern)
       (simp_all add: assms identified_def target_psm_def second_rank_psm_def decoy_psm_def)
  show "normalize example_env cfg (snapshot ([target_psm, second_rank_psm, decoy_psm], [WriteFullConfig ''out.full-config.json'', Log Debug (UsingCPUs 1 4), Log Info ReadingPSMs,
      Log Debug FindingDecoys, Log Info (FoundPSMs 3 (100 / 3)), Log Info (IdentifiedBefore 2)]))
      = Inr (map store_scoring_values [target_psm, second_rank_psm, decoy_psm], [WriteFullConfig ''out.full-config.json'', Log Debug (UsingCPUs 1 4), Log Info ReadingPSMs,
      Log Debug FindingDecoys, Log Info (FoundPSMs 3 (100 / 3)), Log Info (IdentifiedBefore 2),
      Log Debug ParsingModifications, Invoke RenameModifications, Invoke AddFixedModifications,
      Invoke ApplyFixedModifications, Log Debug ApplyingPsmIdPattern])"
    by (simp add: example_normalize assms snapshot_def store_scoring_values_def
          target_psm_def second_rank_psm_def decoy_psm_def)
  show "annotate_and_filter example_env cfg (map store_scoring_values [target_psm, second_rank_psm, decoy_psm], [WriteFullConfig ''out.full-config.json'', Log Debug (UsingCPUs 1 4), Log Info ReadingPSMs,
      Log Debug FindingDecoys, Log Info (FoundPSMs 3 (100 / 3)), Log Info (IdentifiedBefore 2),
      Log Debug ParsingModifications, Invoke RenameModifications, Invoke AddFixedModifications,
      Invoke ApplyFixedModifications, Log Debug ApplyingPsmIdPattern])
      = Inr ({''charge_n''}, [(store_scoring_values target_psm)\<lparr>rescoring_features := [(''charge_n'', 2)]\<rparr>,
      (store_scoring_values decoy_psm)\<lparr>rescoring_features := [(''charge_n'', 2)]\<rparr>], [WriteFullConfig ''out.full-config.json'', Log Debug (UsingCPUs 1 4), Log Info ReadingPSMs,
      Log Debug FindingDecoys, Log Info (FoundPSMs 3 (100 / 3)), Log Info (IdentifiedBefore 2),
      Log Debug ParsingModifications, Invoke RenameModifications, Invoke AddFixedModifications,
      Invoke ApplyFixedModifications, Log Debug ApplyingPsmIdPattern,
      Log Debug (AlreadyContains {}), Invoke (AddFeatures ''basic''),
      Log Debug (AddingFeaturesFrom ''basic'' {''charge_n''}),
      Log Warning (RemovedPSMs 1 {''charge_n''}),
      WriteFeatureNames ''out.feature_names.tsv'' [(''psm_file'', {}), (''basic'', {''charge_n''})]])"
    using example_annotate_three [of cfg "[WriteFullConfig ''out.full-config.json'', Log Debug (UsingCPUs 1 4), Log Info ReadingPSMs,
      Log Debug FindingDecoys, Log Info (FoundPSMs 3 (100 / 3)), Log Info (IdentifiedBefore 2),
      Log Debug ParsingModifications, Invoke RenameModifications, Invoke AddFixedModifications,
      Invoke ApplyFixedModifications, Log Debug ApplyingPsmIdPattern]"] by (simp add: assms)
  show "rename_usi example_env cfg ([(store_scoring_values target_psm)\<lparr>rescoring_features := [(''charge_n'', 2)]\<rparr>,
      (store_scoring_values decoy_psm)\<lparr>rescoring_features := [(''charge_n'', 2)]\<rparr>], [WriteFullConfig ''out.full-config.json'', Log Debug (UsingCPUs 1 4), Log Info ReadingPSMs,
      Log Debug FindingDecoys, Log Info (FoundPSMs 3 (100 / 3)), Log Info (IdentifiedBefore 2),
      Log Debug ParsingModifications, Invoke RenameModifications, Invoke AddFixedModifications,
      Invoke ApplyFixedModifications, Log Debug ApplyingPsmIdPattern,
      Log Debug (AlreadyContains {}), Invoke (AddFeatures ''basic''),
      Log Debug (AddingFeaturesFrom ''basic'' {''charge_n''}),
      Log Warning (RemovedPSMs 1 {''charge_n''}),
      WriteFeatureNames ''out.feature_names.tsv'' [(''psm_file'', {}), (''basic'', {''charge_n''})]])
      = Inr ([(store_scoring_values target_psm)\<lparr>rescoring_features := [(''charge_n'', 2)]\<rparr>,
      (store_scoring_values decoy_psm)\<lparr>rescoring_features := [(''charge_n'', 2)]\<rparr>], [WriteFullConfig ''out.full-config.json'', Log Debug (UsingCPUs 1 4), Log Info ReadingPSMs,
      Log Debug FindingDecoys, Log Info (FoundPSMs 3 (100 / 3)), Log Info (IdentifiedBefore 2),
      Log Debug ParsingModifications, Invoke RenameModifications, Invoke AddFixedModifications,
      Invoke ApplyFixedModifications, Log Debug ApplyingPsmIdPattern,
      Log Debug (AlreadyContains {}), Invoke (AddFeatures ''basic''),
      Log Debug (AddingFeaturesFrom ''basic'' {''charge_n''}),
      Log Warning (RemovedPSMs 1 {''charge_n''}),
      WriteFeatureNames ''out.feature_names.tsv'' [(''psm_file'', {}), (''basic'', {''charge_n''})]])"
    by (simp add: rename_usi_off assms)
qed

lemma example_three_percolator:
  "run_engine example_env percolator_config ([(store_scoring_values target_psm)\<lparr>rescoring_features := [(''charge_n'', 2)]\<rparr>,
      (store_scoring_values decoy_psm)\<lparr>rescoring_features := [(''charge_n'', 2)]\<rparr>], [WriteFullConfig ''out.full-config.json'', Log Debug (UsingCPUs 1 4), Log Info ReadingPSMs,
      Log Debug FindingDecoys, Log Info (FoundPSMs 3 (100 / 3)), Log Info (IdentifiedBefore 2),
      Log Debug ParsingModifications, Invoke RenameModifications, Invoke AddFixedModifications,
      Invoke ApplyFixedModifications, Log Debug ApplyingPsmIdPattern,
      Log Debug (AlreadyContains {}), Invoke (AddFeatures ''basic''),
      Log Debug (AddingFeaturesFrom ''basic'' {''charge_n''}),
      Log Warning (RemovedPSMs 1 {''charge_n''}),
      WriteFeatureNames ''out.feature_names.tsv'' [(''psm_file'', {}), (''basic'', {''charge_n''})]])
     = Inr ([(store_scoring_values target_psm)\<lparr>rescoring_features := [(''charge_n'', 2)], score := 110\<rparr>,
      (store_scoring_values decoy_psm)\<lparr>rescoring_features := [(''charge_n'', 2)], score := 103\<rparr>], [WriteFullConfig ''out.full-config.json'', Log Debug (UsingCPUs 1 4), Log Info ReadingPSMs,
      Log Debug FindingDecoys, Log Info (FoundPSMs 3 (100 / 3)), Log Info (IdentifiedBefore 2),
      Log Debug ParsingModifications, Invoke RenameModifications, Invoke AddFixedModifications,
      Invoke ApplyFixedModifications, Log Debug ApplyingPsmIdPattern,
      Log Debug (AlreadyContains {}), Invoke (AddFeatures ''basic''),
      Log Debug (AddingFeaturesFrom ''basic'' {''charge_n''}),
      Log Warning (RemovedPSMs 1 {''charge_n''}),
      WriteFeatureNames ''out.feature_names.tsv'' [(''psm_file'', {}), (''basic'', {''charge_n''})],
      Invoke PercolatorRescore])"
  "rescore example_env percolator_config (Some [target_psm, second_rank_psm, decoy_psm])
     = Inr ([(store_scoring_values target_psm)\<lparr>rescoring_features := [(''charge_n'', 2)], score := 110\<rparr>,
      (store_scoring_values decoy_psm)\<lparr>rescoring_features := [(''charge_n'', 2)], score := 103\<rparr>], [WriteFullConfig ''out.full-config.json'', Log Debug (UsingCPUs 1 4), Log Info ReadingPSMs,
      Log Debug FindingDecoys, Log Info (FoundPSMs 3 (100 / 3)), Log Info (IdentifiedBefore 2),
      Log Debug ParsingModifications, Invoke RenameModifications, Invoke AddFixedModifications,
      Invoke ApplyFixedModifications, Log Debug ApplyingPsmIdPattern,
      Log Debug (AlreadyContains {}), Invoke (AddFeatures ''basic''),
      Log Debug (AddingFeaturesFrom ''basic'' {''charge_n''}),
      Log Warning (RemovedPSMs 1 {''charge_n''}),
      WriteFeatureNames ''out.feature_names.tsv'' [(''psm_file'', {}), (''basic'', {''charge_n''})],
      Invoke PercolatorRescore,
      Log Info (IdentifiedMore (- 1) (Some (- (1 / 2)))),
      Log Info (WritingOutput ''out.psms.tsv''),
      WritePSMs ''out.psms.tsv'' ''tsv''
        [(store_scoring_values target_psm)\<lparr>rescoring_features := [(''charge_n'', 2)], score := 110\<rparr>,
      (store_scoring_values decoy_psm)\<lparr>rescoring_features := [(''charge_n'', 2)], score := 103\<rparr>] None])"
proof -
  have cfg: "id_decoy_pattern percolator_config = None" "psm_id_pattern percolator_config = None"
    "\<not> rename_to_usi percolator_config" "output_path percolator_config = ''out''"
    "processes percolator_config = 1" "feature_generators percolator_config = [(''basic'', [])]"
    and eng: "rescoring_engine percolator_config = [(''percolator'', [])]"
    by (simp_all add: percolator_config_def basic_config_def base_config_def)
  show re: "run_engine example_env percolator_config ([(store_scoring_values target_psm)\<lparr>rescoring_features := [(''charge_n'', 2)]\<rparr>,
      (store_scoring_values decoy_psm)\<lparr>rescoring_features := [(''charge_n'', 2)]\<rparr>], [WriteFullConfig ''out.full-config.json'', Log Debug (UsingCPUs 1 4), Log Info ReadingPSMs,
      Log Debug FindingDecoys, Log Info (FoundPSMs 3 (100 / 3)), Log Info (IdentifiedBefore 2),
      Log Debug ParsingModifications, Invoke RenameModifications, Invoke AddFixedModifications,
      Invoke ApplyFixedModifications, Log Debug ApplyingPsmIdPattern,
      Log Debug (AlreadyContains {}), Invoke (AddFeatures ''basic''),
      Log Debug (AddingFeaturesFrom ''basic'' {''charge_n''}),
      Log Warning (RemovedPSMs 1 {''charge_n''}),
      WriteFeatureNames ''out.feature_names.tsv'' [(''psm_file'', {}), (''basic'', {''charge_n''})]])
     = Inr ([(store_scoring_values target_psm)\<lparr>rescoring_features := [(''charge_n'', 2)], score := 110\<rparr>,
      (store_scoring_values decoy_psm)\<lparr>rescoring_features := [(''charge_n'', 2)], score := 103\<rparr>], [WriteFullConfig ''out.full-config.json'', Log Debug (UsingCPUs 1 4), Log Info ReadingPSMs,
      Log Debug FindingDecoys, Log Info (FoundPSMs 3 (100 / 3)), Log Info (IdentifiedBefore 2),
      Log Debug ParsingModifications, Invoke RenameModifications, Invoke AddFixedModifications,
      Invoke ApplyFixedModifications, Log Debug ApplyingPsmIdPattern,
      Log Debug (AlreadyContains {}), Invoke (AddFeatures ''basic''),
      Log Debug (AddingFeaturesFrom ''basic'' {''charge_n''}),
      Log Warning (RemovedPSMs 1 {''charge_n''}),
      WriteFeatureNames ''out.feature_names.tsv'' [(''psm_file'', {}), (''basic'', {''charge_n''})],
      Invoke PercolatorRescore])"
    by (simp add: example_percolator [where kw = "[]"] eng store_scoring_values_def
          target_psm_def decoy_psm_def)
  have "export_or_rescore example_env percolator_config 2 {''charge_n''} ([(store_scoring_values target_psm)\<lparr>rescoring_features := [(''charge_n'', 2)]\<rparr>,
      (store_scoring_values decoy_psm)\<lparr>rescoring_features := [(''charge_n'', 2)]\<rparr>], [WriteFullConfig ''out.full-config.json'', Log Debug (UsingCPUs 1 4), Log Info ReadingPSMs,
      Log Debug FindingDecoys, Log Info (FoundPSMs 3 (100 / 3)), Log Info (IdentifiedBefore 2),
      Log Debug ParsingModifications, Invoke RenameModifications, Invoke AddFixedModifications,
      Invoke ApplyFixedModifications, Log Debug ApplyingPsmIdPattern,
      Log Debug (AlreadyContains {}), Invoke (AddFeatures ''basic''),
      Log Debug (AddingFeaturesFrom ''basic'' {''charge_n''}),
      Log Warning (RemovedPSMs 1 {''charge_n''}),
      WriteFeatureNames ''out.feature_names.tsv'' [(''psm_file'', {}), (''basic'', {''charge_n''})]])
     = Inr ([(store_scoring_values target_psm)\<lparr>rescoring_features := [(''charge_n'', 2)], score := 110\<rparr>,
      (store_scoring_values decoy_psm)\<lparr>rescoring_features := [(''charge_n'', 2)], score := 103\<rparr>], [WriteFullConfig ''out.full-config.json'', Log Debug (UsingCPUs 1 4), Log Info ReadingPSMs,
      Log Debug FindingDecoys, Log Info (FoundPSMs 3 (100 / 3)), Log Info (IdentifiedBefore 2),
      Log Debug ParsingModifications, Invoke RenameModifications, Invoke AddFixedModifications,
      Invoke ApplyFixedModifications, Log Debug ApplyingPsmIdPattern,
      Log Debug (AlreadyContains {}), Invoke (AddFeatures ''basic''),
      Log Debug (AddingFeaturesFrom ''basic'' {''charge_n''}),
      Log Warning (RemovedPSMs 1 {''charge_n''}),
      WriteFeatureNames ''out.feature_names.tsv'' [(''psm_file'', {}), (''basic'', {''charge_n''})],
      Invoke PercolatorRescore,
      Log Info (IdentifiedMore (- 1) (Some (- (1 / 2)))),
      Log Info (WritingOutput ''out.psms.tsv''),
      WritePSMs ''out.psms.tsv'' ''tsv''
        [(store_scoring_values target_psm)\<lparr>rescoring_features := [(''charge_n'', 2)], score := 110\<rparr>,
      (store_scoring_values decoy_psm)\<lparr>rescoring_features := [(''charge_n'', 2)], score := 103\<rparr>] None])"
    using re
    by (simp add: export_or_rescore_def eng cfg bind_result_def compare_results_def id_psms_def
          identified_def write_output_def logger_def store_scoring_values_def
          target_psm_def decoy_psm_def)
  with rescore_stages [OF example_three [OF cfg]]
  show "rescore example_env percolator_config (Some [target_psm, second_rank_psm, decoy_psm])
     = Inr ([(store_scoring_values target_psm)\<lparr>rescoring_features := [(''charge_n'', 2)], score := 110\<rparr>,
      (store_scoring_values decoy_psm)\<lparr>rescoring_features := [(''charge_n'', 2)], score := 103\<rparr>], [WriteFullConfig ''out.full-config.json'', Log Debug (UsingCPUs 1 4), Log Info ReadingPSMs,
      Log Debug FindingDecoys, Log Info (FoundPSMs 3 (100 / 3)), Log Info (IdentifiedBefore 2),
      Log Debug ParsingModifications, Invoke RenameModifications, Invoke AddFixedModifications,
      Invoke ApplyFixedModifications, Log Debug ApplyingPsmIdPattern,
      Log Debug (AlreadyContains {}), Invoke (AddFeatures ''basic''),
      Log Debug (AddingFeaturesFrom ''basic'' {''charge_n''}),
      Log Warning (RemovedPSMs 1 {''charge_n''}),
      WriteFeatureNames ''out.feature_names.tsv'' [(''psm_file'', {}), (''basic'', {''charge_n''})],
      Invoke PercolatorRescore,
      Log Info (IdentifiedMore (- 1) (Some (- (1 / 2)))),
      Log Info (WritingOutput ''out.psms.tsv''),
      WritePSMs ''out.psms.tsv'' ''tsv''
        [(store_scoring_values target_psm)\<lparr>rescoring_features := [(''charge_n'', 2)], score := 110\<rparr>,
      (store_scoring_values decoy_psm)\<lparr>rescoring_features := [(''charge_n'', 2)], score := 103\<rparr>] None])"
    by simp
qed

lemma example_env_keeps:
  "keeps_before_scores (rename_modifications example_env m)"
  "keeps_before_scores (add_fixed_modifications example_env f)"
  "keeps_before_scores (apply_fixed_modifications example_env)"
  "\<forall>name factory kw g. FEATURE_GENERATORS example_env name = Some factory
     \<longrightarrow> factory cfg kw = Inr g \<longrightarrow> keeps_before_scores (add_features g)"
  "\<forall>kw. keeps_before_scores (\<lambda>psms. percolator_rescore example_env psms outp lvl k kw)"
  "\<forall>kw. keeps_before_scores (\<lambda>psms. mokapot_rescore example_env psms outp fasta kw)"
  "keeps_before_scores (add_features example_generator)"
proof -
  show "keeps_before_scores (rename_modifications example_env m)"
    "keeps_before_scores (add_fixed_modifications example_env f)"
    "keeps_before_scores (apply_fixed_modifications example_env)"
    "\<forall>kw. keeps_before_scores (\<lambda>psms. mokapot_rescore example_env psms outp fasta kw)"
    by (auto simp: keeps_before_scores_def example_env_def idle_env_def)
  show "\<forall>kw. keeps_before_scores (\<lambda>psms. percolator_rescore example_env psms outp lvl k kw)"
    by (auto simp: keeps_before_scores_def before_scores_def example_env_def idle_env_def)
  have "before_scores (map (\<lambda>p. if rank p = 1
          then p\<lparr>rescoring_features := AList.update ''charge_n'' 2 (rescoring_features p)\<rparr>
          else p) psms) = before_scores psms" for psms
    by (simp add: before_scores_def)
  then show "keeps_before_scores (add_features example_generator)"
    by (auto simp: keeps_before_scores_def example_generator_def)
  then show "\<forall>name factory kw g. FEATURE_GENERATORS example_env name = Some factory
     \<longrightarrow> factory cfg kw = Inr g \<longrightarrow> keeps_before_scores (add_features g)"
    by (auto simp: example_env_def split: if_splits)
qed

lemma baseline_count:
  assumes "baseline env cfg s0 = Inr (n, s1)"
  shows "n = length (filter identified (fst s1))"
proof -
  from assms obtain s where c: "count_before s = Inr (n, s1)"
    by (auto simp: baseline_def bind_result_def split: sum.splits)
  then have "id_psms (fst s) = Inr n" and "fst s1 = fst s"
    by (auto simp: count_before_def logger_def split: sum.splits)
  then show ?thesis by (auto simp: id_psms_def split: if_splits)
qed

section \<open>Properties\<close>

subsection \<open>The decoy percentage (lines 51 to 53)\<close>

text \<open>
  Claim C10. The decoy percentage is computed right after the decoy labelling, by a
  division by the length of the collection that no test guards. For a non-empty collection
  the division is defined and the check that follows never ends in a division error. For
  an empty collection the check ends in \<^verbatim>\<open>ZeroDivisionError\<close>, although no PSM is a decoy
  and the configuration error about missing decoys would be due: the run of the entry
  point stops there.
\<close>

theorem percent_decoys_needs_nonempty:
  "(fst s \<noteq> [] \<longrightarrow>
      percent_decoys (fst s)
        = Inr (real (length (filter is_decoy (fst s))) / real (length (fst s)) * 100)
      \<and> (\<forall>evs. check_decoys s \<noteq> Inl (ZeroDivisionError, evs)))
   \<and> (fst s = [] \<longrightarrow> check_decoys s = Inl (ZeroDivisionError, snd s))
   \<and> (read_psms env cfg psm_list = Inr s0 \<and> apply_decoy_pattern env cfg s0 = Inr s \<and> fst s = []
        \<longrightarrow> rescore env cfg psm_list = Inl (ZeroDivisionError, snd s))"
proof -
  have nonempty: "fst s \<noteq> [] \<Longrightarrow> percent_decoys (fst s)
        = Inr (real (length (filter is_decoy (fst s))) / real (length (fst s)) * 100)"
    by (simp add: percent_decoys_def py_truediv_def)
  have no_div_error: "fst s \<noteq> [] \<Longrightarrow> check_decoys s \<noteq> Inl (ZeroDivisionError, evs)" for evs
    by (simp add: check_decoys_def nonempty Let_def)
  have empty: "fst s = [] \<Longrightarrow> check_decoys s = Inl (ZeroDivisionError, snd s)"
    by (simp add: check_decoys_def percent_decoys_def py_truediv_def)
  have entry: "rescore env cfg psm_list = Inl (ZeroDivisionError, snd s)"
    if "read_psms env cfg psm_list = Inr s0" "apply_decoy_pattern env cfg s0 = Inr s" "fst s = []"
    using that empty
    by (simp add: rescore_def baseline_def label_decoys_def bind_result_def)
  from nonempty no_div_error empty entry show ?thesis by blast
qed

theorem percent_decoys_needs_nonempty_witness:
  "fst ([target_psm, decoy_psm], []) \<noteq> []
   \<and> percent_decoys [target_psm, decoy_psm] = Inr 50
   \<and> check_decoys ([], []) = Inl (ZeroDivisionError, [])
   \<and> rescore idle_env base_config None
        = Inl (ZeroDivisionError,
               [WriteFullConfig ''out.full-config.json'', Log Debug (UsingCPUs 1 4),
                Log Info ReadingPSMs, Invoke ReadFile, Log Debug FindingDecoys])"
proof -
  let ?evs = "[WriteFullConfig ''out.full-config.json'', Log Debug (UsingCPUs 1 4),
               Log Info ReadingPSMs, Invoke ReadFile]"
  have rd: "read_psms idle_env base_config None = Inr ([], ?evs)"
    by (simp add: read_psms_def idle_env_def base_config_def)
  have lab: "apply_decoy_pattern idle_env base_config ([], ?evs)
               = Inr ([], ?evs @ [Log Debug FindingDecoys])"
    by (simp add: apply_decoy_pattern_def base_config_def logger_def)
  have two: "percent_decoys [target_psm, decoy_psm] = Inr 50"
    using percent_decoys_needs_nonempty [of "([target_psm, decoy_psm], [])"]
    by (simp add: target_psm_def decoy_psm_def)
  have none: "check_decoys ([], []) = Inl (ZeroDivisionError, [])"
    using percent_decoys_needs_nonempty [of "([], [])"] by simp
  have run: "rescore idle_env base_config None = Inl (ZeroDivisionError, ?evs @ [Log Debug FindingDecoys])"
    using percent_decoys_needs_nonempty
            [of "([], ?evs @ [Log Debug FindingDecoys])" idle_env base_config None "([], ?evs)"]
          rd lab
    by simp
  from two none run show ?thesis by simp
qed

subsection \<open>The check for decoys (lines 48 to 58)\<close>

text \<open>
  Claim C4. A collection without a decoy is to end the run in the configuration error.
  With a decoy pattern configured and a PSM file that holds no PSM, no PSM is a decoy
  after the labelling, and the run ends in \<^verbatim>\<open>ZeroDivisionError\<close> instead: the division
  of line 52 comes before the check of line 54. On a collection that is not empty and has
  no decoy the check does end in the configuration error (\<open>check_decoys_without_decoy\<close>).
\<close>

theorem no_decoys_in_empty_collection_division_error:
  "\<not> list_ex is_decoy []
   \<and> rescore idle_env (base_config\<lparr>id_decoy_pattern := Some ''DECOY_''\<rparr>) None
        = Inl (ZeroDivisionError,
               [WriteFullConfig ''out.full-config.json'', Log Debug (UsingCPUs 1 4),
                Log Info ReadingPSMs, Invoke ReadFile, Log Debug FindingDecoys,
                Invoke FindDecoys])"
  by (simp add: rescore_def read_psms_def baseline_def label_decoys_def apply_decoy_pattern_def
        check_decoys_def percent_decoys_def py_truediv_def bind_result_def logger_def call_def
        truthy_def idle_env_def base_config_def)

subsection \<open>The q-values (lines 60 to 63)\<close>

text \<open>
  Claim C6. In a run that has read its PSMs and labelled the decoys, the q-values are
  recomputed (the collaborator \<^verbatim>\<open>calculate_qvalues\<close> is invoked, at any point of the run) if
  and only if some PSM of the collection has no q-value at that moment. When every PSM has
  one, the stage returns the collection and the events as they were, so no q-value is
  changed.
\<close>

theorem qvalues_recomputed_iff_missing:
  assumes rd: "read_psms env cfg psm_list = Inr s0" and lab: "label_decoys env cfg s0 = Inr s1"
  shows "(Invoke CalculateQvalues \<in> set (trace snd (rescore env cfg psm_list))
            \<longleftrightarrow> (\<exists>p \<in> set (fst s1). qvalue p = None))
       \<and> ((\<forall>p \<in> set (fst s1). qvalue p \<noteq> None) \<longrightarrow> ensure_qvalues env cfg s1 = Inr s1)"
proof -
  let ?tail = "\<lambda>s2. bind_result (count_before s2) (\<lambda>(n, s). rescore_after_baseline env cfg n s)"
  have run: "rescore env cfg psm_list = bind_result (ensure_qvalues env cfg s1) ?tail"
    using rd lab by (simp add: rescore_def baseline_def bind_result_def split: sum.splits)
  have before: "Invoke CalculateQvalues \<notin> set (snd s1)"
    using label_decoys_stage [OF rd lab, of "Invoke CalculateQvalues"] by auto
  show ?thesis
  proof (cases "\<exists>p \<in> set (fst s1). qvalue p = None")
    case True
    then have "None \<in> set (map qvalue (fst s1))" by force
    then have "trace snd (ensure_qvalues env cfg s1)
                 = snd s1 @ [Log Debug RecalculatingQvalues, Invoke CalculateQvalues]"
      by (simp add: ensure_qvalues_def call_trace logger_def)
    moreover have "extends (\<lambda>e. True) (trace snd (ensure_qvalues env cfg s1))
                     (trace snd (rescore env cfg psm_list))"
      unfolding run
      by (rule bind_prefix) (rule extends_mono [OF tail_after_qvalues], simp)
    ultimately have "Invoke CalculateQvalues \<in> set (trace snd (rescore env cfg psm_list))"
      by (auto simp: extends_def)
    with True show ?thesis by auto
  next
    case False
    then have same: "ensure_qvalues env cfg s1 = Inr s1" by (auto simp: ensure_qvalues_def)
    have "extends (\<lambda>e. e \<noteq> Invoke CalculateQvalues) (snd s1) (trace snd (rescore env cfg psm_list))"
      using tail_after_qvalues [of s1 env cfg] by (simp add: run same bind_result_def)
    from extends_mem [OF this] before
    have "Invoke CalculateQvalues \<notin> set (trace snd (rescore env cfg psm_list))" by blast
    with False same show ?thesis by simp
  qed
qed

theorem qvalues_recomputed_iff_missing_witness:
  "read_psms idle_env base_config (Some [target_psm, decoy_psm])
     = Inr ([target_psm, decoy_psm],
            [WriteFullConfig ''out.full-config.json'', Log Debug (UsingCPUs 1 4), Log Info ReadingPSMs])
   \<and> label_decoys idle_env base_config
        ([target_psm, decoy_psm],
         [WriteFullConfig ''out.full-config.json'', Log Debug (UsingCPUs 1 4), Log Info ReadingPSMs])
     = Inr ([target_psm, decoy_psm],
            [WriteFullConfig ''out.full-config.json'', Log Debug (UsingCPUs 1 4), Log Info ReadingPSMs,
             Log Debug FindingDecoys, Log Info (FoundPSMs 2 50)])
   \<and> list_all (\<lambda>p. qvalue p \<noteq> None) [target_psm, decoy_psm]
   \<and> Invoke CalculateQvalues \<notin> set (trace snd (rescore idle_env base_config (Some [target_psm, decoy_psm])))
   \<and> (\<exists>p \<in> set [unscored_psm, decoy_psm]. qvalue p = None)
   \<and> Invoke CalculateQvalues \<in> set (trace snd (rescore idle_env base_config (Some [unscored_psm, decoy_psm])))"
proof -
  let ?evs0 = "[WriteFullConfig ''out.full-config.json'', Log Debug (UsingCPUs 1 4), Log Info ReadingPSMs]"
  let ?evs1 = "?evs0 @ [Log Debug FindingDecoys, Log Info (FoundPSMs 2 50)]"
  have rd: "read_psms idle_env base_config (Some (p # ps)) = Inr (p # ps, ?evs0)" for p ps
    by (simp add: read_psms_def idle_env_def base_config_def)
  have lab: "label_decoys idle_env base_config ([p, decoy_psm], ?evs0) = Inr ([p, decoy_psm], ?evs1)"
    if "\<not> is_decoy p" for p
    using that
    by (simp add: label_decoys_def apply_decoy_pattern_def check_decoys_def percent_decoys_def
          py_truediv_def bind_result_def logger_def base_config_def decoy_psm_def)
  have t: "\<not> is_decoy target_psm" and u: "\<not> is_decoy unscored_psm"
    by (simp_all add: target_psm_def unscored_psm_def)
  have q: "\<forall>p \<in> set [target_psm, decoy_psm]. qvalue p \<noteq> None"
    by (simp add: target_psm_def decoy_psm_def del: not_None_eq)
  have m: "\<exists>p \<in> set [unscored_psm, decoy_psm]. qvalue p = None"
    by (simp add: unscored_psm_def)
  from qvalues_recomputed_iff_missing [OF rd lab [OF t]] q
  have a: "Invoke CalculateQvalues \<notin> set (trace snd (rescore idle_env base_config (Some [target_psm, decoy_psm])))"
    by simp
  from qvalues_recomputed_iff_missing [OF rd lab [OF u]] m
  have b: "Invoke CalculateQvalues \<in> set (trace snd (rescore idle_env base_config (Some [unscored_psm, decoy_psm])))"
    by simp
  from rd [of target_psm "[decoy_psm]"] lab [OF t] q a m b show ?thesis by simp
qed

subsection \<open>The feature-completeness filter (lines 97 to 139)\<close>

text \<open>
  Claim C1. When the stage that runs the generators and filters the PSMs succeeds, the set
  \<^verbatim>\<open>all_feature_names\<close> is the union of the feature names found in the input (registered
  under \<^verbatim>\<open>psm_file\<close>) and of the feature names of the generators that ran; every PSM that
  is left has exactly this set of feature keys; and the PSMs that are left are those PSMs
  of the annotated collection with exactly this key set, in their order. The configured
  generators are a dictionary (each name once), and no generator is registered under the
  reserved name \<^verbatim>\<open>psm_file\<close>.
\<close>

theorem survivors_have_exactly_all_features:
  assumes ok: "annotate_and_filter env cfg s = Inr (all_names, s')"
    and dict: "distinct (map fst (feature_generators cfg))"
    and reserved: "FEATURE_GENERATORS env ''psm_file'' = None"
  shows "all_names = psm_list_feature_names (fst s)
           \<union> generator_feature_names env cfg (feature_generators cfg)
               (logger Debug (AlreadyContains (psm_list_feature_names (fst s))) s)
       \<and> (\<forall>p \<in> set (fst s'). keys (rescoring_features p) = all_names)
       \<and> (\<exists>names s2.
             add_rescoring_features env cfg (feature_generators cfg)
                 [(''psm_file'', psm_list_feature_names (fst s))]
                 (logger Debug (AlreadyContains (psm_list_feature_names (fst s))) s)
               = Inr (names, s2)
             \<and> fst s' = filter (\<lambda>p. keys (rescoring_features p) = all_names) (fst s2))"
proof -
  let ?s1 = "logger Debug (AlreadyContains (psm_list_feature_names (fst s))) s"
  let ?names0 = "[(''psm_file'', psm_list_feature_names (fst s))]"
  from ok obtain names s2 where
    loop: "add_rescoring_features env cfg (feature_generators cfg) ?names0 ?s1 = Inr (names, s2)"
    and all: "all_names = all_feature_names names"
    and out: "fst s' = fst (filter_features all_names s2)"
    by (auto simp: annotate_and_filter_def bind_result_def Let_def split: sum.splits)
  from loop_reserved_key [OF loop reserved]
  have "fst ` set (feature_generators cfg) \<inter> fst ` set ?names0 = {}" by simp
  from loop_union [OF loop dict this] all
  have union: "all_names = psm_list_feature_names (fst s)
      \<union> generator_feature_names env cfg (feature_generators cfg) ?s1"
    by (simp add: all_feature_names_def)
  from out have survivors: "fst s' = filter (\<lambda>p. keys (rescoring_features p) = all_names) (fst s2)"
    by (simp add: filter_features_fst)
  then have "\<forall>p \<in> set (fst s'). keys (rescoring_features p) = all_names" by simp
  with union loop survivors show ?thesis by blast
qed

theorem survivors_have_exactly_all_features_witness:
  "annotate_and_filter example_env basic_config ([target_psm, second_rank_psm, decoy_psm], [])
     = Inr ({''charge_n''},
            [target_psm\<lparr>rescoring_features := [(''charge_n'', 2)]\<rparr>,
             decoy_psm\<lparr>rescoring_features := [(''charge_n'', 2)]\<rparr>],
            [Log Debug (AlreadyContains {}), Invoke (AddFeatures ''basic''),
             Log Debug (AddingFeaturesFrom ''basic'' {''charge_n''}),
             Log Warning (RemovedPSMs 1 {''charge_n''}),
             WriteFeatureNames ''out.feature_names.tsv''
               [(''psm_file'', {}), (''basic'', {''charge_n''})]])
   \<and> distinct (map fst (feature_generators basic_config))
   \<and> FEATURE_GENERATORS example_env ''psm_file'' = None
   \<and> list_all (\<lambda>p. keys (rescoring_features p) = {''charge_n''})
         [target_psm\<lparr>rescoring_features := [(''charge_n'', 2)]\<rparr>,
          decoy_psm\<lparr>rescoring_features := [(''charge_n'', 2)]\<rparr>]"
proof -
  have ok: "annotate_and_filter example_env basic_config ([target_psm, second_rank_psm, decoy_psm], [])
     = Inr ({''charge_n''},
            [target_psm\<lparr>rescoring_features := [(''charge_n'', 2)]\<rparr>,
             decoy_psm\<lparr>rescoring_features := [(''charge_n'', 2)]\<rparr>],
            [Log Debug (AlreadyContains {}), Invoke (AddFeatures ''basic''),
             Log Debug (AddingFeaturesFrom ''basic'' {''charge_n''}),
             Log Warning (RemovedPSMs 1 {''charge_n''}),
             WriteFeatureNames ''out.feature_names.tsv''
               [(''psm_file'', {}), (''basic'', {''charge_n''})]])"
    by (simp add: annotate_and_filter_def psm_list_feature_names_def keys_def logger_def
          bind_result_def skipped_def run_generator_def call_def example_env_def idle_env_def
          basic_config_def base_config_def example_generator_def target_psm_def decoy_psm_def
          second_rank_psm_def all_feature_names_def filter_features_def psms_with_features_def
          mask_select_def missing_features_def Let_def)
  have dict: "distinct (map fst (feature_generators basic_config))"
    by (simp add: basic_config_def)
  have reserved: "FEATURE_GENERATORS example_env ''psm_file'' = None"
    by (simp add: example_env_def)
  from survivors_have_exactly_all_features [OF ok dict reserved] ok dict reserved
  show ?thesis by simp
qed

subsection \<open>The filter is not fatal (lines 127 to 139)\<close>




subsection \<open>The choice of the rescoring engine (lines 158 to 175)\<close>

text \<open>
  Claim C8, as stated, has the orchestrator warn about an ambiguous configuration. In the
  run below the configuration names Mokapot and Percolator. Percolator is invoked, Mokapot
  is not, and the events of the whole run hold no warning.
\<close>

theorem two_engines_no_warning:
  "rescore example_env two_engines_config (Some [target_psm, decoy_psm])
     = Inr ([(store_scoring_values target_psm)\<lparr>rescoring_features := [(''charge_n'', 2)], score := 110\<rparr>,
             (store_scoring_values decoy_psm)\<lparr>rescoring_features := [(''charge_n'', 2)], score := 103\<rparr>],
            [WriteFullConfig ''out.full-config.json'', Log Debug (UsingCPUs 1 4),
             Log Info ReadingPSMs, Log Debug FindingDecoys, Log Info (FoundPSMs 2 50),
             Log Info (IdentifiedBefore 1), Log Debug ParsingModifications,
             Invoke RenameModifications, Invoke AddFixedModifications,
             Invoke ApplyFixedModifications, Log Debug ApplyingPsmIdPattern,
             Log Debug (AlreadyContains {}), Invoke (AddFeatures ''basic''),
             Log Debug (AddingFeaturesFrom ''basic'' {''charge_n''}),
             WriteFeatureNames ''out.feature_names.tsv''
               [(''psm_file'', {}), (''basic'', {''charge_n''})],
             Invoke PercolatorRescore, Log Info (IdentifiedMore 0 (Some 0)),
             Log Info (WritingOutput ''out.psms.tsv''),
             WritePSMs ''out.psms.tsv'' ''tsv''
               [(store_scoring_values target_psm)\<lparr>rescoring_features := [(''charge_n'', 2)], score := 110\<rparr>,
                (store_scoring_values decoy_psm)\<lparr>rescoring_features := [(''charge_n'', 2)], score := 103\<rparr>]
               None])"
proof -
  let ?psms = "[target_psm, decoy_psm]"
  let ?cfg = two_engines_config
  let ?evs0 = "[WriteFullConfig ''out.full-config.json'', Log Debug (UsingCPUs 1 4),
                Log Info ReadingPSMs]"
  let ?evs1 = "?evs0 @ [Log Debug FindingDecoys, Log Info (FoundPSMs 2 50),
                Log Info (IdentifiedBefore 1)]"
  let ?evs2 = "?evs1 @ [Log Debug ParsingModifications, Invoke RenameModifications,
                Invoke AddFixedModifications, Invoke ApplyFixedModifications,
                Log Debug ApplyingPsmIdPattern]"
  let ?evs3 = "?evs2 @ [Log Debug (AlreadyContains {}), Invoke (AddFeatures ''basic''),
                Log Debug (AddingFeaturesFrom ''basic'' {''charge_n''}),
                WriteFeatureNames ''out.feature_names.tsv''
                  [(''psm_file'', {}), (''basic'', {''charge_n''})]]"
  let ?out = "[(store_scoring_values target_psm)\<lparr>rescoring_features := [(''charge_n'', 2)]\<rparr>,
               (store_scoring_values decoy_psm)\<lparr>rescoring_features := [(''charge_n'', 2)]\<rparr>]"
  have cfg: "id_decoy_pattern ?cfg = None" "psm_id_pattern ?cfg = None" "\<not> rename_to_usi ?cfg"
    "output_path ?cfg = ''out''" "processes ?cfg = 1"
    "rescoring_engine ?cfg = [(''mokapot'', []), (''percolator'', [])]"
    "feature_generators ?cfg = [(''basic'', [])]"
    by (simp_all add: two_engines_config_def basic_config_def base_config_def)
  have rd: "read_psms example_env ?cfg (Some ?psms) = Inr (?psms, ?evs0)"
    by (simp add: read_psms_given cfg example_env_def idle_env_def)
  have bl: "baseline example_env ?cfg (?psms, ?evs0) = Inr (1, ?psms, ?evs1)"
    by (subst baseline_without_pattern)
       (simp_all add: cfg identified_def target_psm_def decoy_psm_def)
  have nm: "normalize example_env ?cfg (snapshot (?psms, ?evs0 @ x))
              = Inr (map store_scoring_values ?psms, ?evs0 @ x @ [Log Debug ParsingModifications,
                Invoke RenameModifications, Invoke AddFixedModifications,
                Invoke ApplyFixedModifications, Log Debug ApplyingPsmIdPattern])" for x
    by (simp add: example_normalize cfg snapshot_def store_scoring_values_def
          target_psm_def decoy_psm_def)
  have an: "annotate_and_filter example_env ?cfg (map store_scoring_values ?psms, ?evs2)
              = Inr ({''charge_n''}, ?out, ?evs3)"
    using example_annotate_two [of ?cfg ?evs2] by (simp add: cfg)
  have ex: "export_or_rescore example_env ?cfg 1 {''charge_n''} (?out, ?evs3)
              = Inr (map (\<lambda>p. p\<lparr>score := score p + 100\<rparr>) ?out,
                     ?evs3 @ [Invoke PercolatorRescore, Log Info (IdentifiedMore 0 (Some 0)),
                       Log Info (WritingOutput ''out.psms.tsv''),
                       WritePSMs ''out.psms.tsv'' ''tsv'' (map (\<lambda>p. p\<lparr>score := score p + 100\<rparr>) ?out) None])"
    by (simp add: export_or_rescore_def cfg example_percolator [where kw = "[]"] bind_result_def
          compare_results_def id_psms_def identified_def write_output_def logger_def
          store_scoring_values_def target_psm_def decoy_psm_def)
  have sc: "map (\<lambda>p. p\<lparr>score := score p + 100\<rparr>) ?out
     = [(store_scoring_values target_psm)\<lparr>rescoring_features := [(''charge_n'', 2)], score := 110\<rparr>,
        (store_scoring_values decoy_psm)\<lparr>rescoring_features := [(''charge_n'', 2)], score := 103\<rparr>]"
    by (simp add: store_scoring_values_def target_psm_def decoy_psm_def)
  show ?thesis
    using rd bl an ex [unfolded sc]
      nm [of "[Log Debug FindingDecoys, Log Info (FoundPSMs 2 50), Log Info (IdentifiedBefore 1)]"]
    by (simp add: rescore_def rescore_after_baseline_def bind_result_def rename_usi_off cfg)
qed

text \<open>
  Claim C8, amended. The dispatch adds exactly one event to the run: the call of the
  Percolator adapter whenever the key \<^verbatim>\<open>percolator\<close> is configured; the call of the Mokapot
  adapter when \<^verbatim>\<open>percolator\<close> is absent and \<^verbatim>\<open>mokapot\<close> is configured; and otherwise an
  information message and no adapter. Other configured engines play no part, and no
  warning is logged.
\<close>

theorem engine_dispatch_by_precedence:
  "trace snd (run_engine env cfg s)
     = snd s @ [if ''percolator'' \<in> keys (rescoring_engine cfg) then Invoke PercolatorRescore
                else if ''mokapot'' \<in> keys (rescoring_engine cfg) then Invoke MokapotRescore
                else Log Info NoKnownEngine]"
proof -
  have k: "k \<in> keys al \<longleftrightarrow> map_of al k \<noteq> None" for k :: string and al :: "(string \<times> kwargs) list"
    by (simp add: keys_def map_of_eq_None_iff)
  have t: "trace snd (Inr a) = snd a" for a :: state
    by (simp add: trace_def)
  show ?thesis
    by (auto simp: k run_engine_def call_trace t logger_def split: option.splits)
qed

theorem engine_dispatch_by_precedence_witness:
  "trace snd (run_engine example_env
       (base_config\<lparr>rescoring_engine := [(''other'', []), (''mokapot'', [])]\<rparr>) ([decoy_psm], []))
     = [Invoke MokapotRescore]"
  using engine_dispatch_by_precedence
          [of example_env "base_config\<lparr>rescoring_engine := [(''other'', []), (''mokapot'', [])]\<rparr>"
              "([decoy_psm], [])"]
  by (simp add: keys_def)

subsection \<open>Export without a rescoring engine (lines 147 to 156)\<close>

text \<open>
  Claim C7. With an empty \<^verbatim>\<open>rescoring_engine\<close> configuration the export stage cannot
  fail: it logs the PIN file and writes the collection it was given, with the set
  \<^verbatim>\<open>all_feature_names\<close>, in the Percolator format to the output prefix followed by
  \<^verbatim>\<open>.pin\<close>, and returns. In the whole run, failed or not, no engine adapter is invoked, no
  comparison is logged and no final table is written. In a run that succeeds, the last two
  events are the log line and the PIN file; the feature names written with it are the
  union of the registry that went to the feature-name file, and every PSM written has
  exactly these feature keys.
\<close>

theorem no_engine_writes_pin_and_stops:
  assumes none: "rescoring_engine cfg = []"
  shows "export_or_rescore env cfg n all_names s
           = Inr (fst s, snd s @ [Log Info (WritingPin (output_path cfg @ ''.psms.pin'')),
                                  WritePSMs (output_path cfg @ ''.pin'') ''percolator'' (fst s)
                                    (Some all_names)])
       \<and> (\<forall>e \<in> set (trace snd (rescore env cfg psm_list)).
             e \<noteq> Invoke PercolatorRescore \<and> e \<noteq> Invoke MokapotRescore
             \<and> (\<forall>l d r. e \<noteq> Log l (IdentifiedMore d r))
             \<and> (\<forall>path psms names. e \<noteq> WritePSMs path ''tsv'' psms names))
       \<and> (\<forall>psms evs. rescore env cfg psm_list = Inr (psms, evs) \<longrightarrow>
             (\<exists>evs' names.
                evs = evs' @ [Log Info (WritingPin (output_path cfg @ ''.psms.pin'')),
                              WritePSMs (output_path cfg @ ''.pin'') ''percolator'' psms
                                (Some (all_feature_names names))]
                \<and> WriteFeatureNames (output_path cfg @ ''.feature_names.tsv'') names \<in> set evs'
                \<and> (\<forall>p \<in> set psms. keys (rescoring_features p) = all_feature_names names)))"
proof -
  let ?P = "\<lambda>e. e \<noteq> Invoke PercolatorRescore \<and> e \<noteq> Invoke MokapotRescore
             \<and> (\<forall>l d r. e \<noteq> Log l (IdentifiedMore d r))
             \<and> (\<forall>path psms names. e \<noteq> WritePSMs path ''tsv'' psms names)"
  have export: "export_or_rescore env cfg n all_names s
           = Inr (fst s, snd s @ [Log Info (WritingPin (output_path cfg @ ''.psms.pin'')),
                                  WritePSMs (output_path cfg @ ''.pin'') ''percolator'' (fst s)
                                    (Some all_names)])" for n all_names s
    using none by (simp add: export_or_rescore_def write_pin_def logger_def)
  have "extends ?P [] (trace snd (rescore env cfg psm_list))"
  proof (rule rescore_footprint)
    fix e :: event
    assume "stage e \<le> 7"
    then show "?P e" by (cases e) auto
  next
    fix n all_names s
    show "extends ?P (snd s) (trace snd (export_or_rescore env cfg n all_names s))"
      by (simp add: export trace_def extends_def)
  qed
  then have never: "\<forall>e \<in> set (trace snd (rescore env cfg psm_list)). ?P e"
    by (simp add: extends_def list_all_iff)
  have pin: "\<exists>evs' names.
                evs = evs' @ [Log Info (WritingPin (output_path cfg @ ''.psms.pin'')),
                              WritePSMs (output_path cfg @ ''.pin'') ''percolator'' psms
                                (Some (all_feature_names names))]
                \<and> WriteFeatureNames (output_path cfg @ ''.feature_names.tsv'') names \<in> set evs'
                \<and> (\<forall>p \<in> set psms. keys (rescoring_features p) = all_feature_names names)"
    if run: "rescore env cfg psm_list = Inr (psms, evs)" for psms evs
  proof -
    from run obtain n s2 F s3 s4 where
      an: "annotate_and_filter env cfg s2 = Inr (F, s3)"
      and ru: "rename_usi env cfg s3 = Inr s4"
      and ex: "export_or_rescore env cfg n F s4 = Inr (psms, evs)"
      by (rule rescore_InrE)
    from an obtain names s2' where F: "F = all_feature_names names"
      and s3: "s3 = (fst (filter_features F s2'),
                     snd (filter_features F s2') @ [WriteFeatureNames (output_path cfg @ ''.feature_names.tsv'') names])"
      by (auto simp: annotate_and_filter_def bind_result_def Let_def split: sum.splits)
    from s3 have complete: "\<forall>k \<in> set (map (\<lambda>p. keys (rescoring_features p)) (fst s3)). k = F"
      by (simp add: filter_features_fst)
    from ru have "extends (\<lambda>e. stage e = 7) (snd s3) (snd s4)"
      using rename_usi_footprint [of s3 env cfg] by (simp add: trace_def)
    with s3 have written: "WriteFeatureNames (output_path cfg @ ''.feature_names.tsv'') names \<in> set (snd s4)"
      by (auto simp: extends_def)
    from rename_usi_frame [OF ru, of "\<lambda>p. keys (rescoring_features p)"] complete
    have "\<forall>k \<in> set (map (\<lambda>p. keys (rescoring_features p)) (fst s4)). k = F" by simp
    then have all: "\<forall>p \<in> set (fst s4). keys (rescoring_features p) = F" by simp
    from ex export [of n F s4] have "psms = fst s4"
      and "evs = snd s4 @ [Log Info (WritingPin (output_path cfg @ ''.psms.pin'')),
                           WritePSMs (output_path cfg @ ''.pin'') ''percolator'' (fst s4) (Some F)]"
      by auto
    with written all F show ?thesis by blast
  qed
  from export never pin show ?thesis by blast
qed

theorem no_engine_writes_pin_and_stops_witness:
  "rescoring_engine basic_config = []
   \<and> rescore example_env basic_config (Some [target_psm, second_rank_psm, decoy_psm])
     = Inr ([(store_scoring_values target_psm)\<lparr>rescoring_features := [(''charge_n'', 2)]\<rparr>,
             (store_scoring_values decoy_psm)\<lparr>rescoring_features := [(''charge_n'', 2)]\<rparr>],
            [WriteFullConfig ''out.full-config.json'', Log Debug (UsingCPUs 1 4),
             Log Info ReadingPSMs, Log Debug FindingDecoys, Log Info (FoundPSMs 3 (100 / 3)),
             Log Info (IdentifiedBefore 2), Log Debug ParsingModifications,
             Invoke RenameModifications, Invoke AddFixedModifications,
             Invoke ApplyFixedModifications, Log Debug ApplyingPsmIdPattern,
             Log Debug (AlreadyContains {}), Invoke (AddFeatures ''basic''),
             Log Debug (AddingFeaturesFrom ''basic'' {''charge_n''}),
             Log Warning (RemovedPSMs 1 {''charge_n''}),
             WriteFeatureNames ''out.feature_names.tsv''
               [(''psm_file'', {}), (''basic'', {''charge_n''})],
             Log Info (WritingPin ''out.psms.pin''),
             WritePSMs ''out.pin'' ''percolator''
               [(store_scoring_values target_psm)\<lparr>rescoring_features := [(''charge_n'', 2)]\<rparr>,
                (store_scoring_values decoy_psm)\<lparr>rescoring_features := [(''charge_n'', 2)]\<rparr>]
               (Some {''charge_n''})])
   \<and> Invoke PercolatorRescore
        \<notin> set (trace snd (rescore example_env basic_config (Some [target_psm, second_rank_psm, decoy_psm])))"
proof -
  have cfg: "id_decoy_pattern basic_config = None" "psm_id_pattern basic_config = None"
    "\<not> rename_to_usi basic_config" "output_path basic_config = ''out''"
    "processes basic_config = 1" "feature_generators basic_config = [(''basic'', [])]"
    and none: "rescoring_engine basic_config = []"
    by (simp_all add: basic_config_def base_config_def)
  note inst = no_engine_writes_pin_and_stops [OF none, of example_env]
  from inst [of _ _ _ "Some [target_psm, second_rank_psm, decoy_psm]"]
  have never: "Invoke PercolatorRescore
        \<notin> set (trace snd (rescore example_env basic_config (Some [target_psm, second_rank_psm, decoy_psm])))"
    by blast
  from inst have export: "export_or_rescore example_env basic_config n all_names s
           = Inr (fst s, snd s @ [Log Info (WritingPin (output_path basic_config @ ''.psms.pin'')),
                                  WritePSMs (output_path basic_config @ ''.pin'') ''percolator'' (fst s)
                                    (Some all_names)])" for n all_names s
    by blast
  show ?thesis
    using none never
    by (simp add: example_prefix_three [OF cfg] export cfg)
qed

subsection \<open>The spectrum identifier pattern (lines 87 to 95 and 207 to 216)\<close>



subsection \<open>The snapshot of the scoring values (lines 71 to 80)\<close>

text \<open>
  Claim C3. The snapshot stores, for every PSM, its score, q-value, PEP and rank under the
  four fixed keys of the provenance data. It is taken on the collection as the baseline
  stage leaves it: the events of the run up to that point hold no call that renames or
  applies modifications, no rewriting of identifiers and no call of a feature generator,
  and the modifications are parsed on the collection that carries the snapshot. In a run
  that succeeds, the values under \<^verbatim>\<open>before_rescoring_score\<close> of the PSMs that are written
  are, in order, scores that the PSMs had when the snapshot was taken (those of the PSMs
  that the filter kept), whatever the later stages do to the score. The stages of the
  orchestrator itself never touch the entry; for the collaborators this is their
  contract, a hypothesis of the theorem: modifications, feature generators and engine
  adapters keep the entry of every PSM.
\<close>

theorem before_rescoring_snapshot_is_kept:
  assumes rd: "read_psms env cfg psm_list = Inr s0"
    and bl: "baseline env cfg s0 = Inr (n, s1)"
    and run: "rescore env cfg psm_list = Inr (out, evs)"
    and mods: "keeps_before_scores (rename_modifications env (modification_mapping cfg))"
      "keeps_before_scores (add_fixed_modifications env (fixed_modifications cfg))"
      "keeps_before_scores (apply_fixed_modifications env)"
    and gens: "\<forall>name factory kw g. FEATURE_GENERATORS env name = Some factory
                 \<longrightarrow> factory cfg kw = Inr g \<longrightarrow> keeps_before_scores (add_features g)"
    and engines:
      "\<forall>kw. keeps_before_scores
              (\<lambda>psms. percolator_rescore env psms (output_path cfg) (log_level cfg) (processes cfg) kw)"
      "\<forall>kw. keeps_before_scores
              (\<lambda>psms. mokapot_rescore env psms (output_path cfg) (fasta_file cfg) kw)"
  shows "(\<forall>p. map_of (provenance_data (store_scoring_values p)) ''before_rescoring_score''
                = Some (PFloat (score p))
              \<and> map_of (provenance_data (store_scoring_values p)) ''before_rescoring_qvalue''
                = Some (case qvalue p of None \<Rightarrow> PNone | Some q \<Rightarrow> PFloat q)
              \<and> map_of (provenance_data (store_scoring_values p)) ''before_rescoring_pep''
                = Some (case pep p of None \<Rightarrow> PNone | Some q \<Rightarrow> PFloat q)
              \<and> map_of (provenance_data (store_scoring_values p)) ''before_rescoring_rank''
                = Some (PInt (rank p)))
       \<and> rescore env cfg psm_list = rescore_after_baseline env cfg n s1
       \<and> (\<exists>s2. normalize env cfg (snapshot s1) = Inr s2)
       \<and> fst (snapshot s1) = map store_scoring_values (fst s1)
       \<and> (\<forall>e \<in> set (snd s1).
             e \<noteq> Invoke RenameModifications \<and> e \<noteq> Invoke AddFixedModifications
             \<and> e \<noteq> Invoke ApplyFixedModifications \<and> e \<noteq> Log Debug ApplyingPsmIdPattern
             \<and> (\<forall>name. e \<noteq> Invoke (AddFeatures name)))
       \<and> subseq (before_scores out) (map (\<lambda>p. Some (PFloat (score p))) (fst s1))"
proof -
  have rest: "rescore env cfg psm_list = rescore_after_baseline env cfg n s1"
    using rd bl by (simp add: rescore_def bind_result_def)
  from run obtain n' s1' s2 all_names s3 s4 s0' where
    rd': "read_psms env cfg psm_list = Inr s0'" and bl': "baseline env cfg s0' = Inr (n', s1')"
    and nm': "normalize env cfg (snapshot s1') = Inr s2"
    and an': "annotate_and_filter env cfg s2 = Inr (all_names, s3)"
    and ru': "rename_usi env cfg s3 = Inr s4"
    and ex': "export_or_rescore env cfg n' all_names s4 = Inr (out, evs)"
    by (rule rescore_InrE)
  from rd rd' bl bl' have same: "n' = n" "s1' = s1" by simp_all
  note nm = nm' [unfolded same] and ex = ex' [unfolded same]
  have early: "stage e \<le> 2" if "e \<in> set (snd s1)" for e
  proof -
    from read_psms_footprint [of env cfg psm_list] rd
    have a: "extends (\<lambda>e. stage e \<le> 2) [] (snd s0)"
      by (auto simp: trace_def intro: extends_mono)
    from baseline_footprint [of s0 env cfg] bl
    have b: "extends (\<lambda>e. stage e \<le> 2) (snd s0) (snd s1)"
      by (auto simp: trace_def intro: extends_mono)
    from a b have "extends (\<lambda>e. stage e \<le> 2) [] (snd s1)" by (rule extends_trans)
    from extends_mem [OF this that] show ?thesis by simp
  qed
  have before: "e \<noteq> Invoke RenameModifications \<and> e \<noteq> Invoke AddFixedModifications
             \<and> e \<noteq> Invoke ApplyFixedModifications \<and> e \<noteq> Log Debug ApplyingPsmIdPattern
             \<and> (\<forall>name. e \<noteq> Invoke (AddFeatures name))" if "e \<in> set (snd s1)" for e
    using early [OF that] by auto
  have "before_scores (fst s2) = map (\<lambda>p. Some (PFloat (score p))) (fst s1)"
    using normalize_keeps [OF mods nm] by (simp add: before_scores_snapshot)
  moreover have "subseq (before_scores (fst s3)) (before_scores (fst s2))"
    by (rule annotate_and_filter_subseq [OF gens an'])
  moreover have "before_scores (fst s4) = before_scores (fst s3)"
    by (rule rename_usi_keeps [OF ru'])
  moreover have "before_scores out = before_scores (fst s4)"
    using export_or_rescore_keeps [OF engines ex] by simp
  ultimately have kept: "subseq (before_scores out) (map (\<lambda>p. Some (PFloat (score p))) (fst s1))"
    by simp
  have snap: "fst (snapshot s1) = map store_scoring_values (fst s1)"
    by (simp add: snapshot_def)
  from store_scoring_values_lookup rest nm snap before kept show ?thesis by blast
qed

theorem before_rescoring_snapshot_is_kept_witness:
  "rescore example_env percolator_config (Some [target_psm, second_rank_psm, decoy_psm])
     = Inr ([(store_scoring_values target_psm)\<lparr>rescoring_features := [(''charge_n'', 2)], score := 110\<rparr>,
      (store_scoring_values decoy_psm)\<lparr>rescoring_features := [(''charge_n'', 2)], score := 103\<rparr>], [WriteFullConfig ''out.full-config.json'', Log Debug (UsingCPUs 1 4), Log Info ReadingPSMs,
      Log Debug FindingDecoys, Log Info (FoundPSMs 3 (100 / 3)), Log Info (IdentifiedBefore 2),
      Log Debug ParsingModifications, Invoke RenameModifications, Invoke AddFixedModifications,
      Invoke ApplyFixedModifications, Log Debug ApplyingPsmIdPattern,
      Log Debug (AlreadyContains {}), Invoke (AddFeatures ''basic''),
      Log Debug (AddingFeaturesFrom ''basic'' {''charge_n''}),
      Log Warning (RemovedPSMs 1 {''charge_n''}),
      WriteFeatureNames ''out.feature_names.tsv'' [(''psm_file'', {}), (''basic'', {''charge_n''})],
      Invoke PercolatorRescore,
      Log Info (IdentifiedMore (- 1) (Some (- (1 / 2)))),
      Log Info (WritingOutput ''out.psms.tsv''),
      WritePSMs ''out.psms.tsv'' ''tsv''
        [(store_scoring_values target_psm)\<lparr>rescoring_features := [(''charge_n'', 2)], score := 110\<rparr>,
      (store_scoring_values decoy_psm)\<lparr>rescoring_features := [(''charge_n'', 2)], score := 103\<rparr>] None])
   \<and> keeps_before_scores (rename_modifications example_env (modification_mapping percolator_config))
   \<and> keeps_before_scores (add_fixed_modifications example_env (fixed_modifications percolator_config))
   \<and> keeps_before_scores (apply_fixed_modifications example_env)
   \<and> keeps_before_scores (add_features example_generator)
   \<and> keeps_before_scores (\<lambda>psms. percolator_rescore example_env psms ''out'' ''info'' 1 [])
   \<and> map score [target_psm, second_rank_psm, decoy_psm] = [10, 4, 3]
   \<and> map score [(store_scoring_values target_psm)\<lparr>rescoring_features := [(''charge_n'', 2)], score := 110\<rparr>,
      (store_scoring_values decoy_psm)\<lparr>rescoring_features := [(''charge_n'', 2)], score := 103\<rparr>] = [110, 103]
   \<and> before_scores [(store_scoring_values target_psm)\<lparr>rescoring_features := [(''charge_n'', 2)], score := 110\<rparr>,
      (store_scoring_values decoy_psm)\<lparr>rescoring_features := [(''charge_n'', 2)], score := 103\<rparr>] = [Some (PFloat 10), Some (PFloat 3)]
   \<and> subseq (before_scores [(store_scoring_values target_psm)\<lparr>rescoring_features := [(''charge_n'', 2)], score := 110\<rparr>,
      (store_scoring_values decoy_psm)\<lparr>rescoring_features := [(''charge_n'', 2)], score := 103\<rparr>]) [Some (PFloat 10), Some (PFloat 4), Some (PFloat 3)]"
proof -
  have cfg: "id_decoy_pattern percolator_config = None" "psm_id_pattern percolator_config = None"
    "\<not> rename_to_usi percolator_config" "output_path percolator_config = ''out''"
    "processes percolator_config = 1" "feature_generators percolator_config = [(''basic'', [])]"
    by (simp_all add: percolator_config_def basic_config_def base_config_def)
  note ex = example_three [OF cfg]
  note gen = example_env_keeps(7)
  have sc: "map score [target_psm, second_rank_psm, decoy_psm] = [10, 4, 3]"
    by (simp add: target_psm_def second_rank_psm_def decoy_psm_def)
  have sc': "map score [(store_scoring_values target_psm)\<lparr>rescoring_features := [(''charge_n'', 2)], score := 110\<rparr>,
      (store_scoring_values decoy_psm)\<lparr>rescoring_features := [(''charge_n'', 2)], score := 103\<rparr>] = [110, 103]"
    by simp
  have bs: "before_scores [(store_scoring_values target_psm)\<lparr>rescoring_features := [(''charge_n'', 2)], score := 110\<rparr>,
      (store_scoring_values decoy_psm)\<lparr>rescoring_features := [(''charge_n'', 2)], score := 103\<rparr>] = [Some (PFloat 10), Some (PFloat 3)]"
    by (simp add: before_scores_def store_scoring_values_def update_conv' target_psm_def decoy_psm_def)
  from before_rescoring_snapshot_is_kept [OF ex(1) ex(2) example_three_percolator(2)
       example_env_keeps(1) example_env_keeps(2) example_env_keeps(3) example_env_keeps(4)
       example_env_keeps(5) example_env_keeps(6)]
  have "subseq (before_scores [(store_scoring_values target_psm)\<lparr>rescoring_features := [(''charge_n'', 2)], score := 110\<rparr>,
      (store_scoring_values decoy_psm)\<lparr>rescoring_features := [(''charge_n'', 2)], score := 103\<rparr>]) (map (\<lambda>p. Some (PFloat (score p))) [target_psm, second_rank_psm, decoy_psm])"
    by simp
  then have "subseq (before_scores [(store_scoring_values target_psm)\<lparr>rescoring_features := [(''charge_n'', 2)], score := 110\<rparr>,
      (store_scoring_values decoy_psm)\<lparr>rescoring_features := [(''charge_n'', 2)], score := 103\<rparr>]) [Some (PFloat 10), Some (PFloat 4), Some (PFloat 3)]"
    by (simp add: target_psm_def second_rank_psm_def decoy_psm_def)
  with example_three_percolator(2) example_env_keeps(1,2,3,5) gen sc sc' bs
  show ?thesis by simp
qed

subsection \<open>The two counts of identified PSMs (lines 65 to 69 and 177 to 186)\<close>

text \<open>
  Claim C9. In a run with an engine, the number of identified PSMs before rescoring is
  counted on the collection that the baseline stage returns, before any feature is added
  or any PSM is filtered out. The number after rescoring is counted on what the engine
  returns for the filtered collection: the collection the engine receives has the feature
  dictionaries of the PSMs that passed the filter, and it is strictly shorter than the
  annotated collection as soon as the filter removed a PSM. The difference that is logged
  is the difference of these two counts.
\<close>

theorem counts_before_and_after_on_different_collections:
  assumes rd: "read_psms env cfg psm_list = Inr s0"
    and bl: "baseline env cfg s0 = Inr (n, s1)"
    and nm: "normalize env cfg (snapshot s1) = Inr s2"
    and an: "annotate_and_filter env cfg s2 = Inr (all_names, s3)"
    and ru: "rename_usi env cfg s3 = Inr s4"
    and eng: "rescoring_engine cfg \<noteq> []"
    and re: "run_engine env cfg s4 = Inr s5"
    and after: "id_psms (fst s5) = Inr id_psms_after"
  shows "n = length (filter identified (fst s1))
       \<and> id_psms_after = length (filter identified (fst s5))
       \<and> (\<exists>names sa.
             add_rescoring_features env cfg (feature_generators cfg)
                 [(''psm_file'', psm_list_feature_names (fst s2))]
                 (logger Debug (AlreadyContains (psm_list_feature_names (fst s2))) s2)
               = Inr (names, sa)
             \<and> map rescoring_features (fst s4)
                 = map rescoring_features
                     (filter (\<lambda>p. keys (rescoring_features p) = all_names) (fst sa))
             \<and> ((\<exists>p \<in> set (fst sa). keys (rescoring_features p) \<noteq> all_names)
                  \<longrightarrow> length (fst s4) < length (fst sa)))
       \<and> rescore env cfg psm_list
           = Inr (write_output cfg
                   (logger Info
                      (IdentifiedMore (int id_psms_after - int n)
                         (if 0 < n then Some (real_of_int (int id_psms_after - int n) / real n)
                          else None)) s5))"
proof -
  have before: "n = length (filter identified (fst s1))"
    by (rule baseline_count [OF bl])
  have aft: "id_psms_after = length (filter identified (fst s5))"
    using after by (auto simp: id_psms_def split: if_splits)
  from an obtain names sa where
    loop: "add_rescoring_features env cfg (feature_generators cfg)
             [(''psm_file'', psm_list_feature_names (fst s2))]
             (logger Debug (AlreadyContains (psm_list_feature_names (fst s2))) s2) = Inr (names, sa)"
    and s3: "fst s3 = fst (filter_features all_names sa)"
    by (auto simp: annotate_and_filter_def bind_result_def Let_def split: sum.splits)
  let ?complete = "\<lambda>p. keys (rescoring_features p) = all_names"
  from s3 have s3': "fst s3 = filter ?complete (fst sa)" by (simp add: filter_features_fst)
  have feats: "map rescoring_features (fst s4) = map rescoring_features (filter ?complete (fst sa))"
    using rename_usi_frame [OF ru, of rescoring_features] s3' by simp
  then have "length (fst s4) = length (filter ?complete (fst sa))"
    by (metis length_map)
  moreover have "length (filter ?complete (fst sa)) < length (fst sa)"
    if "\<exists>p \<in> set (fst sa). \<not> ?complete p"
    using that by (auto intro: length_filter_less)
  ultimately have shorter: "(\<exists>p \<in> set (fst sa). keys (rescoring_features p) \<noteq> all_names)
      \<longrightarrow> length (fst s4) < length (fst sa)"
    by simp
  have "rescore env cfg psm_list = export_or_rescore env cfg n all_names s4"
    by (rule rescore_stages [OF rd bl nm an ru])
  then have run: "rescore env cfg psm_list
           = Inr (write_output cfg
                   (logger Info
                      (IdentifiedMore (int id_psms_after - int n)
                         (if 0 < n then Some (real_of_int (int id_psms_after - int n) / real n)
                          else None)) s5))"
    using eng re after
    by (simp add: export_or_rescore_def bind_result_def compare_results_def Let_def)
  from before aft loop feats shorter run show ?thesis by blast
qed

theorem counts_before_and_after_on_different_collections_witness:
  "rescoring_engine percolator_config \<noteq> []
   \<and> id_psms [target_psm, second_rank_psm, decoy_psm] = Inr 2
   \<and> id_psms [(store_scoring_values target_psm)\<lparr>rescoring_features := [(''charge_n'', 2)], score := 110\<rparr>,
      (store_scoring_values decoy_psm)\<lparr>rescoring_features := [(''charge_n'', 2)], score := 103\<rparr>] = Inr 1
   \<and> length [(store_scoring_values target_psm)\<lparr>rescoring_features := [(''charge_n'', 2)], score := 110\<rparr>,
      (store_scoring_values decoy_psm)\<lparr>rescoring_features := [(''charge_n'', 2)], score := 103\<rparr>] < length [target_psm, second_rank_psm, decoy_psm]
   \<and> rescore example_env percolator_config (Some [target_psm, second_rank_psm, decoy_psm])
       = Inr (write_output percolator_config
                (logger Info (IdentifiedMore (- 1) (Some (- (1 / 2))))
                   ([(store_scoring_values target_psm)\<lparr>rescoring_features := [(''charge_n'', 2)], score := 110\<rparr>,
      (store_scoring_values decoy_psm)\<lparr>rescoring_features := [(''charge_n'', 2)], score := 103\<rparr>], [WriteFullConfig ''out.full-config.json'', Log Debug (UsingCPUs 1 4), Log Info ReadingPSMs,
      Log Debug FindingDecoys, Log Info (FoundPSMs 3 (100 / 3)), Log Info (IdentifiedBefore 2),
      Log Debug ParsingModifications, Invoke RenameModifications, Invoke AddFixedModifications,
      Invoke ApplyFixedModifications, Log Debug ApplyingPsmIdPattern,
      Log Debug (AlreadyContains {}), Invoke (AddFeatures ''basic''),
      Log Debug (AddingFeaturesFrom ''basic'' {''charge_n''}),
      Log Warning (RemovedPSMs 1 {''charge_n''}),
      WriteFeatureNames ''out.feature_names.tsv'' [(''psm_file'', {}), (''basic'', {''charge_n''})],
      Invoke PercolatorRescore])))"
proof -
  have cfg: "id_decoy_pattern percolator_config = None" "psm_id_pattern percolator_config = None"
    "\<not> rename_to_usi percolator_config" "output_path percolator_config = ''out''"
    "processes percolator_config = 1" "feature_generators percolator_config = [(''basic'', [])]"
    and eng: "rescoring_engine percolator_config \<noteq> []"
    by (simp_all add: percolator_config_def basic_config_def base_config_def)
  note ex = example_three [OF cfg]
  have b: "id_psms [target_psm, second_rank_psm, decoy_psm] = Inr 2"
    by (simp add: id_psms_def identified_def target_psm_def second_rank_psm_def decoy_psm_def)
  have a: "id_psms (fst ([(store_scoring_values target_psm)\<lparr>rescoring_features := [(''charge_n'', 2)], score := 110\<rparr>,
      (store_scoring_values decoy_psm)\<lparr>rescoring_features := [(''charge_n'', 2)], score := 103\<rparr>], [WriteFullConfig ''out.full-config.json'', Log Debug (UsingCPUs 1 4), Log Info ReadingPSMs,
      Log Debug FindingDecoys, Log Info (FoundPSMs 3 (100 / 3)), Log Info (IdentifiedBefore 2),
      Log Debug ParsingModifications, Invoke RenameModifications, Invoke AddFixedModifications,
      Invoke ApplyFixedModifications, Log Debug ApplyingPsmIdPattern,
      Log Debug (AlreadyContains {}), Invoke (AddFeatures ''basic''),
      Log Debug (AddingFeaturesFrom ''basic'' {''charge_n''}),
      Log Warning (RemovedPSMs 1 {''charge_n''}),
      WriteFeatureNames ''out.feature_names.tsv'' [(''psm_file'', {}), (''basic'', {''charge_n''})],
      Invoke PercolatorRescore])) = Inr 1"
    by (simp add: id_psms_def identified_def store_scoring_values_def target_psm_def decoy_psm_def)
  from counts_before_and_after_on_different_collections
         [OF ex(1) ex(2) ex(3) ex(4) ex(5) eng example_three_percolator(1) a]
  have "rescore example_env percolator_config (Some [target_psm, second_rank_psm, decoy_psm])
       = Inr (write_output percolator_config
                (logger Info (IdentifiedMore (- 1) (Some (- (1 / 2))))
                   ([(store_scoring_values target_psm)\<lparr>rescoring_features := [(''charge_n'', 2)], score := 110\<rparr>,
      (store_scoring_values decoy_psm)\<lparr>rescoring_features := [(''charge_n'', 2)], score := 103\<rparr>], [WriteFullConfig ''out.full-config.json'', Log Debug (UsingCPUs 1 4), Log Info ReadingPSMs,
      Log Debug FindingDecoys, Log Info (FoundPSMs 3 (100 / 3)), Log Info (IdentifiedBefore 2),
      Log Debug ParsingModifications, Invoke RenameModifications, Invoke AddFixedModifications,
      Invoke ApplyFixedModifications, Log Debug ApplyingPsmIdPattern,
      Log Debug (AlreadyContains {}), Invoke (AddFeatures ''basic''),
      Log Debug (AddingFeaturesFrom ''basic'' {''charge_n''}),
      Log Warning (RemovedPSMs 1 {''charge_n''}),
      WriteFeatureNames ''out.feature_names.tsv'' [(''psm_file'', {}), (''basic'', {''charge_n''})],
      Invoke PercolatorRescore])))"
    by simp
  with eng a b show ?thesis by simp
qed

end
